theory Spec2Isabelle
  imports Main
begin

section \<open>Python values and exceptions\<close>

text \<open>
  Exceptions of the payment service are values: every \<open>raise\<close> of the source and every
  failing library call is an \<open>Inl\<close> branch, every \<open>except\<close> a case split on it.
  A Python \<open>str\<close> is modelled by its UTF-8 bytes, so \<open>encode('utf-8')\<close> is the identity
  and \<open>decode('utf-8')\<close> only checks validity.
\<close>

datatype py_error =
    ValueError
  | TypeError
  | AttributeError
  | UnicodeDecodeError
  | OverflowError
  | DoesNotExist
  | MultipleObjectsReturned
  | IntegrityError
  | ValidationError
  | PaymentAmountError
  | PaymentIntentError
  | RefundError
  | DecimalOverflow
  | InvalidOperation
  | RelatedObjectDoesNotExist

text \<open>
  Library functions the service calls but does not define: \<open>hmac.new(...).hexdigest()\<close>
  with SHA-256, the validity check behind \<open>bytes.decode('utf-8')\<close> and \<open>int(str)\<close>
  (\<open>None\<close> is its \<open>ValueError\<close>). They are parameters of the model.
\<close>

record pylib =
  hmac_sha256_hexdigest :: "string \<Rightarrow> string \<Rightarrow> string"
  utf8_valid :: "string \<Rightarrow> bool"
  py_int :: "string \<Rightarrow> int option"

text \<open>Truthiness of an optional string: \<open>None\<close> and \<open>''\<close> are falsy.\<close>

fun truthy :: "string option \<Rightarrow> bool" where
  "truthy None = False"
| "truthy (Some s) = (s \<noteq> [])"

text \<open>\<open>str.split(sep)\<close> with a one-character separator: never returns an empty list.\<close>

fun split_on :: "char \<Rightarrow> string \<Rightarrow> string list" where
  "split_on sep [] = [[]]"
| "split_on sep (c # cs) =
     (if c = sep then [] # split_on sep cs
      else (case split_on sep cs of
              [] \<Rightarrow> [[c]]
            | w # ws \<Rightarrow> (c # w) # ws))"

text \<open>
  \<open>key, value = item.split('=', 1)\<close>: the unpacking needs exactly two parts, so an item
  without \<open>=\<close> raises \<open>ValueError\<close>.
\<close>

fun split_once :: "char \<Rightarrow> string \<Rightarrow> (string \<times> string) option" where
  "split_once sep [] = None"
| "split_once sep (c # cs) =
     (if c = sep then Some ([], cs)
      else (case split_once sep cs of
              None \<Rightarrow> None
            | Some (k, v) \<Rightarrow> Some (c # k, v)))"

fun parse_items :: "string list \<Rightarrow> (string \<rightharpoonup> string) \<Rightarrow> py_error + (string \<rightharpoonup> string)" where
  "parse_items [] d = Inr d"
| "parse_items (item # rest) d =
     (case split_once CHR ''='' item of
        None \<Rightarrow> Inl ValueError
      | Some (k, v) \<Rightarrow> parse_items rest (d(k \<mapsto> v)))"

definition is_ascii :: "string \<Rightarrow> bool" where
  "is_ascii s = list_all (\<lambda>c. (of_char c :: nat) < 128) s"

text \<open>
  \<open>hmac.compare_digest\<close> on two \<open>str\<close> arguments: \<open>TypeError\<close> unless both are ASCII,
  otherwise their equality.
\<close>

definition compare_digest :: "string \<Rightarrow> string \<Rightarrow> py_error + bool" where
  "compare_digest a b =
     (if is_ascii a \<and> is_ascii b then Inr (a = b) else Inl TypeError)"

section \<open>Signature verifier\<close>

record settings =
  STRIPE_WEBHOOK_ENDPOINT_SECRET :: "string option"
  STRIPE_WEBHOOK_SECRET :: "string option"
  DEBUG :: bool

text \<open>\<open>getattr(settings, A, None) or getattr(settings, B, None)\<close>\<close>

definition webhook_secret :: "settings \<Rightarrow> string option" where
  "webhook_secret st =
     (if truthy (STRIPE_WEBHOOK_ENDPOINT_SECRET st) then STRIPE_WEBHOOK_ENDPOINT_SECRET st
      else STRIPE_WEBHOOK_SECRET st)"

text \<open>The body of the \<open>try\<close> block of \<open>verify_webhook_signature\<close>, secret in hand.\<close>

definition verify_body :: "pylib \<Rightarrow> string \<Rightarrow> int \<Rightarrow> string \<Rightarrow> string \<Rightarrow> py_error + bool" where
  "verify_body L secret now payload signature_header =
     (case parse_items (split_on CHR '','' signature_header) Map.empty of
        Inl e \<Rightarrow> Inl e
      | Inr signature_data \<Rightarrow>
          let timestamp = signature_data ''t'';
              signature = signature_data ''v1''
          in if \<not> truthy timestamp \<or> \<not> truthy signature then Inr False
             else if \<not> utf8_valid L payload then Inl UnicodeDecodeError
             else
               let signed_payload = the timestamp @ ''.'' @ payload;
                   expected_signature = hmac_sha256_hexdigest L secret signed_payload
               in (case compare_digest expected_signature (the signature) of
                     Inl e \<Rightarrow> Inl e
                   | Inr same \<Rightarrow>
                       if \<not> same then Inr False
                       else (case py_int L (the timestamp) of
                               None \<Rightarrow> Inl ValueError
                             | Some webhook_time \<Rightarrow>
                                 if \<bar>now - webhook_time\<bar> > 300 then Inr False
                                 else Inr True)))"

text \<open>
  \<open>verify_webhook_signature\<close>: without a secret every event is accepted; with one, any
  exception of the body is caught and answered \<open>False\<close>. \<open>now\<close> is
  \<open>int(timezone.now().timestamp())\<close>.
\<close>

definition verify_webhook_signature :: "pylib \<Rightarrow> settings \<Rightarrow> int \<Rightarrow> string \<Rightarrow> string \<Rightarrow> bool" where
  "verify_webhook_signature L st now payload signature_header =
     (if \<not> truthy (webhook_secret st) then True
      else (case verify_body L (the (webhook_secret st)) now payload signature_header of
              Inl e \<Rightarrow> False
            | Inr b \<Rightarrow> b))"

section \<open>Money codec\<close>

text \<open>
  Python's \<open>decimal.Decimal\<close>: a finite value is a signed coefficient and an exponent,
  \<open>Finite c e\<close> standing for \<open>c * 10 ^ e\<close>; the special values are kept because
  \<open>int()\<close> raises on them. Arithmetic runs in the default context:
  28 significant digits, \<open>ROUND_HALF_EVEN\<close>, \<open>Emax = 999999\<close>, \<open>Emin = -999999\<close>,
  overflow trapped.
\<close>

datatype decimal = Finite int int | Infinity bool | NaN

definition prec :: nat where "prec = 28"
definition Emax :: int where "Emax = 999999"
definition Emin :: int where "Emin = - 999999"
definition Etiny :: int where "Etiny = Emin - int prec + 1"
definition Etop :: int where "Etop = Emax - int prec + 1"

text \<open>\<open>len(str(n))\<close> for a natural number.\<close>

fun ndigits :: "nat \<Rightarrow> nat" where
  "ndigits n = (if n < 10 then 1 else Suc (ndigits (n div 10)))"

declare ndigits.simps [simp del]

text \<open>Dropping the last \<open>k\<close> digits of \<open>m\<close>, ties to the even neighbour.\<close>

definition round_half_even :: "nat \<Rightarrow> nat \<Rightarrow> nat" where
  "round_half_even m k =
     (let q = m div 10 ^ k; r = m mod 10 ^ k
      in if 2 * r > 10 ^ k \<or> (2 * r = 10 ^ k \<and> odd q) then q + 1 else q)"

text \<open>
  \<open>Decimal._fix\<close>: the result of an operation is brought into the context. A zero only has
  its exponent clamped; a coefficient longer than the precision (or below \<open>Etiny\<close>) is
  rounded, and a carry into a 29th digit drops one more digit; a result above \<open>Emax\<close>
  raises \<open>decimal.Overflow\<close>.
\<close>

definition dec_fix :: "int \<Rightarrow> int \<Rightarrow> py_error + decimal" where
  "dec_fix c e =
     (if c = 0 then Inr (Finite 0 (min (max e Etiny) Emax))
      else
        let m = nat \<bar>c\<bar>;
            exp_min0 = int (ndigits m) + e - int prec
        in if exp_min0 > Etop then Inl DecimalOverflow
           else
             let exp_min = max exp_min0 Etiny
             in if e < exp_min then
                  let q = round_half_even m (nat (exp_min - e));
                      q' = (if ndigits q > prec then q div 10 else q);
                      e' = (if ndigits q > prec then exp_min + 1 else exp_min)
                  in if e' > Etop then Inl DecimalOverflow
                     else Inr (Finite (sgn c * int q') e')
                else Inr (Finite c e))"

text \<open>\<open>Decimal * int\<close>: the exact product, then the context.\<close>

fun dec_mul_int :: "decimal \<Rightarrow> int \<Rightarrow> py_error + decimal" where
  "dec_mul_int (Finite c e) k = dec_fix (c * k) e"
| "dec_mul_int (Infinity s) k =
     (if k = 0 then Inl InvalidOperation else Inr (Infinity (if k < 0 then \<not> s else s)))"
| "dec_mul_int NaN k = Inr NaN"

text \<open>\<open>int(Decimal)\<close>: truncation toward zero; the special values raise.\<close>

fun dec_to_int :: "decimal \<Rightarrow> py_error + int" where
  "dec_to_int (Finite c e) =
     Inr (if 0 \<le> e then c * 10 ^ nat e else sgn c * (\<bar>c\<bar> div 10 ^ nat (- e)))"
| "dec_to_int (Infinity s) = Inl OverflowError"
| "dec_to_int NaN = Inl ValueError"

text \<open>\<open>Decimal.__eq__\<close> compares values, not representations: \<open>10.5 == 10.50\<close>.\<close>

fun dec_eq :: "decimal \<Rightarrow> decimal \<Rightarrow> bool" where
  "dec_eq (Finite c1 e1) (Finite c2 e2) =
     (if e1 \<le> e2 then c1 = c2 * 10 ^ nat (e2 - e1) else c1 * 10 ^ nat (e1 - e2) = c2)"
| "dec_eq (Infinity s1) (Infinity s2) = (s1 = s2)"
| "dec_eq _ _ = False"

text \<open>\<open>_amount_to_cents\<close>: \<open>int(amount * 100)\<close>.\<close>

definition amount_to_cents :: "decimal \<Rightarrow> py_error + int" where
  "amount_to_cents amount =
     (case dec_mul_int amount 100 of Inl err \<Rightarrow> Inl err | Inr p \<Rightarrow> dec_to_int p)"

text \<open>
  The loop of \<open>Decimal.__truediv__\<close> for an exact quotient,
  \<open>while exp < ideal_exp and coeff % 10 == 0\<close>: trailing zeros are dropped while the
  exponent is still \<open>gap\<close> below the ideal one.
\<close>

function strip_zeros :: "nat \<Rightarrow> nat \<Rightarrow> nat \<times> nat" where
  "strip_zeros coeff gap =
     (if 0 < gap \<and> coeff mod 10 = 0 then strip_zeros (coeff div 10) (gap - 1) else (coeff, gap))"
  by pat_completeness auto
termination
  by (relation "measure (\<lambda>(coeff, gap). gap)") auto

declare strip_zeros.simps [simp del]

text \<open>
  \<open>Decimal.__truediv__\<close> for a non-zero integer dividend \<open>sign * m\<close> at exponent 0 and
  the divisor 100, once \<open>shift = len('100') - len(str(m)) + prec + 1\<close> is known: the
  quotient is taken with \<open>prec + 1\<close> digits; an inexact one gets a sticky last digit, an
  exact one is brought as close to the ideal exponent 0 as its trailing zeros allow; then
  the context applies.
\<close>

definition divide_by_100 :: "int \<Rightarrow> nat \<Rightarrow> int \<Rightarrow> py_error + decimal" where
  "divide_by_100 sign m shift =
     (let coeff = (if 0 \<le> shift then m * 10 ^ nat shift div 100
                   else m div (100 * 10 ^ nat (- shift)));
          remainder = (if 0 \<le> shift then m * 10 ^ nat shift mod 100
                       else m mod (100 * 10 ^ nat (- shift)))
      in if remainder \<noteq> 0 then
           dec_fix (sign * int (if coeff mod 5 = 0 then coeff + 1 else coeff)) (- shift)
         else if 0 < shift then
           (case strip_zeros coeff (nat shift) of
              (coeff', gap) \<Rightarrow> dec_fix (sign * int coeff') (- int gap))
         else dec_fix (sign * int coeff) (- shift))"

text \<open>
  \<open>_cents_to_amount\<close>: \<open>Decimal(str(cents)) / 100\<close>. The constructor is exact, with
  exponent 0; a zero dividend gives a zero at the ideal exponent.
\<close>

definition cents_to_amount :: "int \<Rightarrow> py_error + decimal" where
  "cents_to_amount cents =
     (if cents = 0 then dec_fix 0 0
      else divide_by_100 (sgn cents) (nat \<bar>cents\<bar>)
             (3 - int (ndigits (nat \<bar>cents\<bar>)) + int prec + 1))"

text \<open>
  The amounts the codec claims speak about: \<open>exact_cents a = Some n\<close> when \<open>a\<close> is finite
  with at most two fractional digits, \<open>n\<close> being \<open>a\<close> in cents.
\<close>

definition exact_cents :: "decimal \<Rightarrow> int option" where
  "exact_cents a =
     (case a of
        Finite c e \<Rightarrow>
          if - 2 \<le> e then Some (c * 10 ^ nat (e + 2))
          else if c mod 10 ^ nat (- 2 - e) = 0 then Some (c div 10 ^ nat (- 2 - e))
          else None
      | _ \<Rightarrow> None)"

section \<open>Ledger\<close>

text \<open>
  A key of a JSON object sent by the processor is missing, \<open>null\<close>, or holds a value of
  the type the processor documents for it. \<open>get_field\<close> is \<open>d.get(k)\<close> and
  \<open>get_default\<close> is \<open>d.get(k, default)\<close>: the default replaces a missing key only,
  a \<open>null\<close> comes back as \<open>None\<close>.
\<close>

datatype 'a field = Absent | Null | Val 'a

fun get_field :: "'a field \<Rightarrow> 'a option" where
  "get_field (Val v) = Some v"
| "get_field Null = None"
| "get_field Absent = None"

fun get_default :: "'a field \<Rightarrow> 'a \<Rightarrow> 'a option" where
  "get_default (Val v) d = Some v"
| "get_default Null d = None"
| "get_default Absent d = Some d"

record error_object =
  err_message :: "string field"
  err_code :: "string field"

text \<open>The object of an event, with the keys the handlers read.\<close>

record stripe_object =
  obj_id :: "string field"
  obj_status :: "string field"
  obj_amount :: "int field"
  obj_currency :: "string field"
  obj_payment_intent :: "string field"
  obj_last_payment_error :: "error_object field"
  obj_failure_message :: "string field"
  obj_reason :: "string field"
  obj_metadata :: "(string \<times> string) list field"

definition empty_object :: stripe_object where
  "empty_object =
     \<lparr>obj_id = Absent, obj_status = Absent, obj_amount = Absent, obj_currency = Absent,
      obj_payment_intent = Absent, obj_last_payment_error = Absent,
      obj_failure_message = Absent, obj_reason = Absent, obj_metadata = Absent\<rparr>"

text \<open>An event: \<open>ev_data\<close> is the key \<open>data\<close>, and inside it the key \<open>object\<close>.\<close>

record event_data =
  ev_id :: "string field"
  ev_type :: "string field"
  ev_data :: "stripe_object field field"

text \<open>
  The rows of the three tables. A column that is \<open>null=True\<close> is an option; \<open>status\<close>,
  \<open>reason\<close> and the refund's parent are options too because an instance can hold
  \<open>None\<close> there until \<open>save()\<close> meets the NOT NULL constraint. Primary keys (UUIDs in
  the source) are drawn from a counter.
\<close>

record PaymentTransaction =
  pt_id :: nat
  pt_amount :: decimal
  pt_currency :: string
  pt_status :: "string option"
  pt_stripe_payment_intent_id :: "string option"
  pt_stripe_status :: "string option"
  pt_failure_reason :: "string option"
  pt_processed_at :: "int option"

record PaymentRefund =
  rf_id :: nat
  rf_payment_transaction :: "nat option"
  rf_amount :: decimal
  rf_currency :: string
  rf_reason :: "string option"
  rf_status :: "string option"
  rf_stripe_refund_id :: "string option"
  rf_metadata :: "(string \<times> string) list option"
  rf_processed_at :: "int option"

record PaymentWebhook =
  wh_id :: nat
  wh_stripe_event_id :: "string option"
  wh_event_type :: "string option"
  wh_processed :: bool
  wh_processing_error :: "string option"
  wh_event_data :: event_data
  wh_processed_at :: "int option"

record db =
  transactions :: "PaymentTransaction list"
  refunds :: "PaymentRefund list"
  webhooks :: "PaymentWebhook list"
  next_id :: nat

text \<open>
  \<open>Model.objects.get(...)\<close>: the one row that matches, \<open>DoesNotExist\<close> for none,
  \<open>MultipleObjectsReturned\<close> for several. A lookup by \<open>None\<close> is \<open>IS NULL\<close>, which
  equality on options gives.
\<close>

definition orm_get :: "('r \<Rightarrow> bool) \<Rightarrow> 'r list \<Rightarrow> py_error + 'r" where
  "orm_get P rows =
     (case filter P rows of
        [] \<Rightarrow> Inl DoesNotExist
      | [r] \<Rightarrow> Inr r
      | r # r' # rs \<Rightarrow> Inl MultipleObjectsReturned)"

text \<open>
  \<open>DecimalField(max_digits=10, decimal_places=2)\<close> on its way to the database: the value
  is quantized to two places, ties to even, and \<open>InvalidOperation\<close> is raised when more
  than ten digits would be needed.
\<close>

definition adapt_decimalfield_value :: "decimal \<Rightarrow> py_error + decimal" where
  "adapt_decimalfield_value v =
     (case v of
        Finite c e \<Rightarrow>
          let m = (if - 2 \<le> e then nat \<bar>c\<bar> * 10 ^ nat (e + 2)
                   else round_half_even (nat \<bar>c\<bar>) (nat (- 2 - e)))
          in if m \<noteq> 0 \<and> ndigits m > 10 then Inl InvalidOperation
             else Inr (Finite (sgn c * int m) (- 2))
      | _ \<Rightarrow> Inl InvalidOperation)"

text \<open>
  Writing a row goes in two steps, in this order: the values are prepared for the database,
  where a decimal that does not fit raises \<open>InvalidOperation\<close>, and then the statement
  runs, where a NOT NULL or unique constraint raises \<open>IntegrityError\<close>.
\<close>

text \<open>
  \<open>PaymentTransaction.save\<close>: \<open>processed_at\<close> is stamped when the stored status was not
  \<open>succeeded\<close> and the new one is; then the row with this primary key is written.
\<close>

definition PaymentTransaction_save :: "int \<Rightarrow> db \<Rightarrow> PaymentTransaction \<Rightarrow> py_error + db" where
  "PaymentTransaction_save now d self =
     (let self1 =
            (case orm_get (\<lambda>r. pt_id r = pt_id self) (transactions d) of
               Inr old_instance \<Rightarrow>
                 if pt_status old_instance \<noteq> Some ''succeeded'' \<and> pt_status self = Some ''succeeded''
                 then self\<lparr>pt_processed_at := Some now\<rparr> else self
             | Inl e \<Rightarrow> self)
      in (case adapt_decimalfield_value (pt_amount self1) of
            Inl e \<Rightarrow> Inl e
          | Inr a \<Rightarrow>
              if pt_status self1 = None then Inl IntegrityError
              else
                Inr (d\<lparr>transactions :=
                       map (\<lambda>r. if pt_id r = pt_id self then self1\<lparr>pt_amount := a\<rparr> else r)
                         (transactions d)\<rparr>)))"

text \<open>
  \<open>PaymentTransaction.objects.create\<close>: a fresh primary key, the unique constraint on a
  non-null \<open>stripe_payment_intent_id\<close>, NOT NULL on \<open>status\<close>. No \<open>clean()\<close> or field
  validator runs.
\<close>

definition PaymentTransaction_create ::
  "db \<Rightarrow> string option \<Rightarrow> decimal \<Rightarrow> string \<Rightarrow> string option \<Rightarrow> py_error + db \<times> PaymentTransaction" where
  "PaymentTransaction_create d intent_id amount currency status =
     (case adapt_decimalfield_value amount of
        Inl e \<Rightarrow> Inl e
      | Inr a \<Rightarrow>
          if status = None then Inl IntegrityError
          else if intent_id \<noteq> None
                  \<and> list_ex (\<lambda>r. pt_stripe_payment_intent_id r = intent_id) (transactions d)
          then Inl IntegrityError
          else
            let row = \<lparr>pt_id = next_id d, pt_amount = a, pt_currency = currency,
                       pt_status = status, pt_stripe_payment_intent_id = intent_id,
                       pt_stripe_status = None, pt_failure_reason = None,
                       pt_processed_at = None\<rparr>
            in Inr (d\<lparr>transactions := transactions d @ [row], next_id := Suc (next_id d)\<rparr>,
                    row))"

text \<open>
  The currency step of \<open>PaymentRefund.save\<close>:
  \<open>if not self.currency and self.payment_transaction\<close>. Reading the parent of a refund
  that has none raises \<open>RelatedObjectDoesNotExist\<close>; otherwise an empty currency is
  taken from the parent.
\<close>

definition refund_currency :: "db \<Rightarrow> PaymentRefund \<Rightarrow> py_error + PaymentRefund" where
  "refund_currency d self =
     (if rf_currency self = [] then
        (case rf_payment_transaction self of
           None \<Rightarrow> Inl RelatedObjectDoesNotExist
         | Some tid \<Rightarrow>
             (case orm_get (\<lambda>r. pt_id r = tid) (transactions d) of
                Inr parent \<Rightarrow> Inr (self\<lparr>rf_currency := pt_currency parent\<rparr>)
              | Inl e \<Rightarrow> Inl e))
      else Inr self)"

text \<open>
  \<open>PaymentRefund.objects.create\<close>: the overridden \<open>save\<close> finds no stored row for the
  new key, runs its currency step, and the row is inserted with NOT NULL on the parent,
  \<open>reason\<close>, \<open>status\<close> and \<open>metadata\<close> and a unique non-null \<open>stripe_refund_id\<close>.
  \<open>clean()\<close> is not called.
\<close>

definition PaymentRefund_create ::
  "db \<Rightarrow> string option \<Rightarrow> nat option \<Rightarrow> decimal \<Rightarrow> string \<Rightarrow> string option \<Rightarrow> string option
     \<Rightarrow> (string \<times> string) list option \<Rightarrow> py_error + db \<times> PaymentRefund" where
  "PaymentRefund_create d refund_id parent amount currency reason status metadata =
     (case refund_currency d
             \<lparr>rf_id = next_id d, rf_payment_transaction = parent, rf_amount = amount,
              rf_currency = currency, rf_reason = reason, rf_status = status,
              rf_stripe_refund_id = refund_id, rf_metadata = metadata,
              rf_processed_at = None\<rparr> of
        Inl e \<Rightarrow> Inl e
      | Inr self \<Rightarrow>
          (case adapt_decimalfield_value amount of
             Inl e \<Rightarrow> Inl e
           | Inr a \<Rightarrow>
               if parent = None \<or> reason = None \<or> status = None \<or> metadata = None
               then Inl IntegrityError
               else if refund_id \<noteq> None
                       \<and> list_ex (\<lambda>r. rf_stripe_refund_id r = refund_id) (refunds d)
               then Inl IntegrityError
               else
                 let row = self\<lparr>rf_amount := a\<rparr>
                 in Inr (d\<lparr>refunds := refunds d @ [row], next_id := Suc (next_id d)\<rparr>, row)))"

text \<open>\<open>PaymentRefund.save\<close> on a stored row.\<close>

definition PaymentRefund_save :: "int \<Rightarrow> db \<Rightarrow> PaymentRefund \<Rightarrow> py_error + db" where
  "PaymentRefund_save now d self =
     (let self1 =
            (case orm_get (\<lambda>r. rf_id r = rf_id self) (refunds d) of
               Inr old_instance \<Rightarrow>
                 if rf_status old_instance \<noteq> Some ''succeeded'' \<and> rf_status self = Some ''succeeded''
                 then self\<lparr>rf_processed_at := Some now\<rparr> else self
             | Inl e \<Rightarrow> self)
      in (case refund_currency d self1 of
            Inl e \<Rightarrow> Inl e
          | Inr self2 \<Rightarrow>
              (case adapt_decimalfield_value (rf_amount self2) of
                 Inl e \<Rightarrow> Inl e
               | Inr a \<Rightarrow>
                   if rf_status self2 = None \<or> rf_reason self2 = None
                      \<or> rf_payment_transaction self2 = None \<or> rf_metadata self2 = None
                   then Inl IntegrityError
                   else
                     Inr (d\<lparr>refunds :=
                            map (\<lambda>r. if rf_id r = rf_id self then self2\<lparr>rf_amount := a\<rparr> else r)
                              (refunds d)\<rparr>))))"

section \<open>Refund validation\<close>

text \<open>\<open>Decimal + Decimal\<close> and \<open>Decimal > Decimal\<close> in the default context.\<close>

fun dec_add :: "decimal \<Rightarrow> decimal \<Rightarrow> py_error + decimal" where
  "dec_add (Finite c1 e1) (Finite c2 e2) =
     (let e = min e1 e2 in dec_fix (c1 * 10 ^ nat (e1 - e) + c2 * 10 ^ nat (e2 - e)) e)"
| "dec_add NaN _ = Inr NaN"
| "dec_add _ NaN = Inr NaN"
| "dec_add (Infinity s1) (Infinity s2) = (if s1 = s2 then Inr (Infinity s1) else Inl InvalidOperation)"
| "dec_add (Infinity s) (Finite c e) = Inr (Infinity s)"
| "dec_add (Finite c e) (Infinity s) = Inr (Infinity s)"

text \<open>In \<open>Infinity s\<close> the flag \<open>s\<close> is the sign bit: \<open>True\<close> for minus infinity.\<close>

fun dec_gt :: "decimal \<Rightarrow> decimal \<Rightarrow> py_error + bool" where
  "dec_gt (Finite c1 e1) (Finite c2 e2) =
     (let e = min e1 e2 in Inr (c1 * 10 ^ nat (e1 - e) > c2 * 10 ^ nat (e2 - e)))"
| "dec_gt NaN _ = Inl InvalidOperation"
| "dec_gt _ NaN = Inl InvalidOperation"
| "dec_gt (Infinity s1) (Infinity s2) = Inr (\<not> s1 \<and> s2)"
| "dec_gt (Infinity s) (Finite c e) = Inr (\<not> s)"
| "dec_gt (Finite c e) (Infinity s) = Inr s"

text \<open>\<open>sum(r.amount for r in rows)\<close>, starting from the integer 0.\<close>

fun dec_sum :: "decimal \<Rightarrow> decimal list \<Rightarrow> py_error + decimal" where
  "dec_sum acc [] = Inr acc"
| "dec_sum acc (x # xs) = (case dec_add acc x of Inl e \<Rightarrow> Inl e | Inr acc' \<Rightarrow> dec_sum acc' xs)"

fun dec_truthy :: "decimal \<Rightarrow> bool" where
  "dec_truthy (Finite c e) = (c \<noteq> 0)"
| "dec_truthy _ = True"

text \<open>
  The refunds \<open>PaymentRefund.clean\<close> counts: those of the same parent that are
  \<open>succeeded\<close> or \<open>pending\<close>, this one excluded.
\<close>

definition existing_refunds :: "db \<Rightarrow> PaymentRefund \<Rightarrow> PaymentRefund list" where
  "existing_refunds d self =
     filter (\<lambda>r. rf_payment_transaction r = rf_payment_transaction self
                \<and> (rf_status r = Some ''succeeded'' \<or> rf_status r = Some ''pending'')
                \<and> rf_id r \<noteq> rf_id self) (refunds d)"

text \<open>
  \<open>PaymentRefund.clean\<close>: for a refund with a non-zero amount, the counted refunds plus
  this amount must not exceed the parent's amount. Reading the parent of a refund that has
  none raises \<open>RelatedObjectDoesNotExist\<close>. Django calls \<open>clean\<close> from
  \<open>full_clean\<close> (forms, the admin); \<open>save\<close> and \<open>objects.create\<close> do not call it.
\<close>

definition PaymentRefund_clean :: "db \<Rightarrow> PaymentRefund \<Rightarrow> py_error + unit" where
  "PaymentRefund_clean d self =
     (case rf_payment_transaction self of
        None \<Rightarrow> Inl RelatedObjectDoesNotExist
      | Some tid \<Rightarrow>
          (case orm_get (\<lambda>r. pt_id r = tid) (transactions d) of
             Inl e \<Rightarrow> Inl e
           | Inr payment_transaction \<Rightarrow>
               if \<not> dec_truthy (rf_amount self) then Inr ()
               else
                 (case dec_sum (Finite 0 0) (map rf_amount (existing_refunds d self)) of
                    Inl e \<Rightarrow> Inl e
                  | Inr total_refunded \<Rightarrow>
                      (case dec_add total_refunded (rf_amount self) of
                         Inl e \<Rightarrow> Inl e
                       | Inr requested \<Rightarrow>
                           (case dec_gt requested (pt_amount payment_transaction) of
                              Inl e \<Rightarrow> Inl e
                            | Inr exceeds \<Rightarrow>
                                if exceeds then Inl ValidationError else Inr ())))))"



section \<open>Webhook dispatcher\<close>

text \<open>The result dictionaries of the dispatcher, one constructor for each shape.\<close>

datatype outcome =
    R_already_processed "string option"
  | R_processed_intent string "string option" "string option" "string option" nat
  | R_no_local_record_intent string "string option"
  | R_no_payment_intent "string option"
  | R_processed_charge string "string option" "string option"
  | R_no_local_record_charge "string option" "string option"
  | R_no_payment_transaction "string option" "string option"
  | R_processed_refund string "string option" "string option" bool
  | R_logged string "string option"
  | R_unhandled string
  | R_error py_error "string option"

text \<open>The value under the key \<open>status\<close>.\<close>

fun result_status :: "outcome \<Rightarrow> string" where
  "result_status (R_already_processed _) = ''already_processed''"
| "result_status (R_processed_intent _ _ _ _ _) = ''processed''"
| "result_status (R_no_local_record_intent _ _) = ''no_local_record''"
| "result_status (R_no_payment_intent _) = ''no_payment_intent''"
| "result_status (R_processed_charge _ _ _) = ''processed''"
| "result_status (R_no_local_record_charge _ _) = ''no_local_record''"
| "result_status (R_no_payment_transaction _ _) = ''no_payment_transaction''"
| "result_status (R_processed_refund _ _ _ _) = ''processed''"
| "result_status (R_logged _ _) = ''logged''"
| "result_status (R_unhandled _) = ''unhandled''"
| "result_status (R_error _ _) = ''error''"

definition startswith :: "string \<Rightarrow> string \<Rightarrow> bool" where
  "startswith s p = (take (length p) s = p)"

text \<open>\<open>str.upper\<close> on ASCII letters.\<close>

definition upper_char :: "char \<Rightarrow> char" where
  "upper_char c =
     (let n = (of_char c :: nat) in if 97 \<le> n \<and> n \<le> 122 then char_of (n - 32) else c)"

definition upper :: "string \<Rightarrow> string" where
  "upper s = map upper_char s"

text \<open>
  \<open>float(n)\<close> for an integer raises \<open>OverflowError\<close> when \<open>n\<close> rounds to a
  magnitude beyond the largest double, that is from \<open>2 ^ 1024 - 2 ^ 970\<close> on.
\<close>

definition float_overflows :: "int \<Rightarrow> bool" where
  "float_overflows n = (\<bar>n\<bar> \<ge> 2 ^ 1024 - 2 ^ 970)"

text \<open>
  A handler returns the database as it left it together with its result or the exception
  it raised: there is no enclosing database transaction, so what was saved before a raise
  stays saved.
\<close>

type_synonym handled = "db \<times> (py_error + outcome)"

text \<open>
  \<open>_handle_payment_intent_webhook\<close>. The amount and currency are read for the metrics
  before the lookup and raise on \<open>null\<close>. The status of the event object is assigned to
  the row whatever the row's status was.
\<close>

definition handle_payment_intent_webhook :: "int \<Rightarrow> db \<Rightarrow> string \<Rightarrow> stripe_object option \<Rightarrow> handled" where
  "handle_payment_intent_webhook now d event_type event_object =
     (case event_object of
        None \<Rightarrow> (d, Inl AttributeError)
      | Some payment_intent \<Rightarrow>
          let payment_intent_id = get_field (obj_id payment_intent);
              new_status = get_field (obj_status payment_intent)
          in if get_default (obj_amount payment_intent) 0 = None then (d, Inl TypeError)
             else if float_overflows (the (get_default (obj_amount payment_intent) 0))
             then (d, Inl OverflowError)
             else if get_default (obj_currency payment_intent) ''USD'' = None
             then (d, Inl AttributeError)
             else
               (case orm_get (\<lambda>r. pt_stripe_payment_intent_id r = payment_intent_id)
                       (transactions d) of
                  Inl DoesNotExist \<Rightarrow>
                    (d, Inr (R_no_local_record_intent event_type payment_intent_id))
                | Inl e \<Rightarrow> (d, Inl e)
                | Inr payment_transaction \<Rightarrow>
                    let old_status = pt_status payment_transaction;
                        t1 = payment_transaction
                               \<lparr>pt_status := new_status, pt_stripe_status := new_status\<rparr>;
                        t2 =
                          (if event_type = ''payment_intent.succeeded'' then
                             Inr (t1\<lparr>pt_processed_at := Some now\<rparr>)
                           else if event_type = ''payment_intent.payment_failed'' then
                             (case get_default (obj_last_payment_error payment_intent)
                                     \<lparr>err_message = Absent, err_code = Absent\<rparr> of
                                None \<Rightarrow> Inl AttributeError
                              | Some err \<Rightarrow>
                                  Inr (t1\<lparr>pt_failure_reason :=
                                            get_default (err_message err) ''Unknown error''\<rparr>))
                           else if event_type = ''payment_intent.canceled'' then
                             Inr (t1\<lparr>pt_status := Some ''canceled''\<rparr>)
                           else Inr t1)
                    in (case t2 of
                          Inl e \<Rightarrow> (d, Inl e)
                        | Inr t3 \<Rightarrow>
                            (case PaymentTransaction_save now d t3 of
                               Inl e \<Rightarrow> (d, Inl e)
                             | Inr d' \<Rightarrow>
                                 (d', Inr (R_processed_intent event_type payment_intent_id
                                            old_status new_status (pt_id t3)))))))"

text \<open>\<open>_handle_charge_webhook\<close>\<close>

definition handle_charge_webhook :: "int \<Rightarrow> db \<Rightarrow> string \<Rightarrow> stripe_object option \<Rightarrow> handled" where
  "handle_charge_webhook now d event_type event_object =
     (case event_object of
        None \<Rightarrow> (d, Inl AttributeError)
      | Some charge \<Rightarrow>
          let payment_intent_id = get_field (obj_payment_intent charge);
              charge_id = get_field (obj_id charge)
          in if \<not> truthy payment_intent_id then (d, Inr (R_no_payment_intent charge_id))
             else
               (case orm_get (\<lambda>r. pt_stripe_payment_intent_id r = payment_intent_id)
                       (transactions d) of
                  Inl DoesNotExist \<Rightarrow>
                    (d, Inr (R_no_local_record_charge payment_intent_id charge_id))
                | Inl e \<Rightarrow> (d, Inl e)
                | Inr payment_transaction \<Rightarrow>
                    let t1 =
                          (if event_type = ''charge.succeeded'' then
                             payment_transaction
                               \<lparr>pt_status := Some ''succeeded'', pt_processed_at := Some now\<rparr>
                           else if event_type = ''charge.failed'' then
                             payment_transaction
                               \<lparr>pt_failure_reason :=
                                  get_default (obj_failure_message charge) ''Charge failed'',
                                pt_status := Some ''failed''\<rparr>
                           else payment_transaction)
                    in (case PaymentTransaction_save now d t1 of
                          Inl e \<Rightarrow> (d, Inl e)
                        | Inr d' \<Rightarrow>
                            (d', Inr (R_processed_charge event_type charge_id payment_intent_id)))))"

text \<open>
  The second half of \<open>_handle_refund_webhook\<close>: the status update and the save, for a
  refund row found or just created.
\<close>

definition refund_update_status ::
  "int \<Rightarrow> db \<Rightarrow> string \<Rightarrow> stripe_object \<Rightarrow> PaymentRefund \<Rightarrow> bool \<Rightarrow> handled" where
  "refund_update_status now d event_type refund payment_refund created =
     (let r1 =
            (if event_type = ''refund.created'' then payment_refund\<lparr>rf_status := Some ''pending''\<rparr>
             else if event_type = ''refund.updated'' then
               payment_refund
                 \<lparr>rf_status :=
                    (case obj_status refund of
                       Absent \<Rightarrow> rf_status payment_refund
                     | Null \<Rightarrow> None
                     | Val s \<Rightarrow> Some s)\<rparr>
             else payment_refund)
      in (case PaymentRefund_save now d r1 of
            Inl e \<Rightarrow> (d, Inl e)
          | Inr d' \<Rightarrow>
              (d', Inr (R_processed_refund event_type (get_field (obj_id refund))
                         (get_field (obj_payment_intent refund)) created))))"

text \<open>
  \<open>_handle_refund_webhook\<close>. A refund unknown locally is created from the event, under
  the transaction found by payment-intent ID, with the event's amount converted from
  cents. The sum of the parent's refunds is not consulted.
\<close>

definition handle_refund_webhook :: "int \<Rightarrow> db \<Rightarrow> string \<Rightarrow> stripe_object option \<Rightarrow> handled" where
  "handle_refund_webhook now d event_type event_object =
     (case event_object of
        None \<Rightarrow> (d, Inl AttributeError)
      | Some refund \<Rightarrow>
          let refund_id = get_field (obj_id refund);
              payment_intent_id = get_field (obj_payment_intent refund)
          in (case orm_get (\<lambda>r. rf_stripe_refund_id r = refund_id) (refunds d) of
                Inr payment_refund \<Rightarrow>
                  refund_update_status now d event_type refund payment_refund False
              | Inl DoesNotExist \<Rightarrow>
                  (case (if truthy payment_intent_id then
                           (case orm_get (\<lambda>r. pt_stripe_payment_intent_id r = payment_intent_id)
                                   (transactions d) of
                              Inr t \<Rightarrow> Inr (Some (pt_id t))
                            | Inl e \<Rightarrow> Inl e)
                         else Inr None) of
                     Inl DoesNotExist \<Rightarrow>
                       (d, Inr (R_no_payment_transaction refund_id payment_intent_id))
                   | Inl e \<Rightarrow> (d, Inl e)
                   | Inr payment_transaction \<Rightarrow>
                       (case get_default (obj_amount refund) 0 of
                          None \<Rightarrow> (d, Inl InvalidOperation)
                        | Some cents \<Rightarrow>
                            (case cents_to_amount cents of
                               Inl e \<Rightarrow> (d, Inl e)
                             | Inr amount \<Rightarrow>
                                 (case get_default (obj_currency refund) ''usd'' of
                                    None \<Rightarrow> (d, Inl AttributeError)
                                  | Some currency \<Rightarrow>
                                      (case PaymentRefund_create d refund_id payment_transaction
                                              amount (upper currency)
                                              (get_default (obj_reason refund)
                                                 ''requested_by_customer'')
                                              (get_default (obj_status refund) ''pending'')
                                              (get_default (obj_metadata refund) []) of
                                         Inl e \<Rightarrow> (d, Inl e)
                                       | Inr (d1, payment_refund) \<Rightarrow>
                                           refund_update_status now d1 event_type refund
                                             payment_refund True)))))
              | Inl e \<Rightarrow> (d, Inl e)))"

text \<open>\<open>_handle_terminal_webhook\<close>\<close>

definition handle_terminal_webhook :: "db \<Rightarrow> string \<Rightarrow> stripe_object option \<Rightarrow> handled" where
  "handle_terminal_webhook d event_type event_object =
     (case event_object of
        None \<Rightarrow> (d, Inl AttributeError)
      | Some terminal_object \<Rightarrow>
          (d, Inr (R_logged event_type (get_field (obj_id terminal_object)))))"

text \<open>
  \<open>_handle_webhook_event_type\<close>: \<open>event_data.get('data', {}).get('object', {})\<close>, then the
  dispatch on the prefix of the type.
\<close>

definition handle_webhook_event_type :: "int \<Rightarrow> db \<Rightarrow> event_data \<Rightarrow> handled" where
  "handle_webhook_event_type now d ev =
     (case (case ev_data ev of
              Absent \<Rightarrow> Inr (Some empty_object)
            | Null \<Rightarrow> Inl AttributeError
            | Val data \<Rightarrow> Inr (get_default data empty_object)) of
        Inl e \<Rightarrow> (d, Inl e)
      | Inr event_object \<Rightarrow>
          (case get_field (ev_type ev) of
             None \<Rightarrow> (d, Inl AttributeError)
           | Some event_type \<Rightarrow>
               if startswith event_type ''payment_intent.'' then
                 handle_payment_intent_webhook now d event_type event_object
               else if startswith event_type ''charge.'' then
                 handle_charge_webhook now d event_type event_object
               else if startswith event_type ''refund.'' then
                 handle_refund_webhook now d event_type event_object
               else if startswith event_type ''terminal.'' then
                 handle_terminal_webhook d event_type event_object
               else (d, Inr (R_unhandled event_type))))"

text \<open>
  A \<open>PaymentWebhook\<close> instance in memory: the row, and the attribute
  \<open>processing_result\<close> that \<open>process_webhook_event\<close> assigns. The model class declares
  no such field, so \<open>save()\<close> writes the row only.
\<close>

record webhook_instance =
  row :: PaymentWebhook
  processing_result :: "outcome option"

definition PaymentWebhook_save :: "db \<Rightarrow> webhook_instance \<Rightarrow> db" where
  "PaymentWebhook_save d self =
     d\<lparr>webhooks := map (\<lambda>w. if wh_id w = wh_id (row self) then row self else w) (webhooks d)\<rparr>"

text \<open>\<open>PaymentWebhook.mark_processed\<close>, the model's own way to record an outcome.\<close>

definition mark_processed :: "int \<Rightarrow> db \<Rightarrow> webhook_instance \<Rightarrow> string option \<Rightarrow> db" where
  "mark_processed now d self error =
     PaymentWebhook_save d
       (self\<lparr>row := (row self)\<lparr>wh_processed := (error = None), wh_processing_error := error,
                                wh_processed_at := Some now\<rparr>\<rparr>)"

text \<open>\<open>PaymentWebhook.objects.get_or_create(stripe_event_id=event_id, defaults=...)\<close>\<close>

definition get_or_create ::
  "db \<Rightarrow> string option \<Rightarrow> string option \<Rightarrow> event_data \<Rightarrow> py_error + db \<times> webhook_instance \<times> bool" where
  "get_or_create d event_id event_type ev =
     (case orm_get (\<lambda>w. wh_stripe_event_id w = event_id) (webhooks d) of
        Inr w \<Rightarrow> Inr (d, \<lparr>row = w, processing_result = None\<rparr>, False)
      | Inl DoesNotExist \<Rightarrow>
          if event_id = None \<or> event_type = None then Inl IntegrityError
          else
            let w = \<lparr>wh_id = next_id d, wh_stripe_event_id = event_id,
                     wh_event_type = event_type, wh_processed = False,
                     wh_processing_error = None, wh_event_data = ev, wh_processed_at = None\<rparr>
            in Inr (d\<lparr>webhooks := webhooks d @ [w], next_id := Suc (next_id d)\<rparr>,
                    \<lparr>row = w, processing_result = None\<rparr>, True)
      | Inl e \<Rightarrow> Inl e)"

text \<open>
  \<open>process_webhook_event\<close>. An exception before \<open>webhook_record\<close> is bound only yields
  the error result. An exception of the handler assigns the error to
  \<open>processing_result\<close> and saves the record, whose row is as it was read.
\<close>

definition process_webhook_event :: "int \<Rightarrow> db \<Rightarrow> event_data \<Rightarrow> db \<times> outcome" where
  "process_webhook_event now d ev =
     (let event_type = get_field (ev_type ev);
          event_id = get_field (ev_id ev)
      in (case get_or_create d event_id event_type ev of
            Inl e \<Rightarrow> (d, R_error e event_id)
          | Inr (d1, webhook_record, created) \<Rightarrow>
              if \<not> created \<and> wh_processed (row webhook_record)
              then (d1, R_already_processed event_id)
              else
                (case handle_webhook_event_type now d1 ev of
                   (d2, Inr result) \<Rightarrow>
                     (PaymentWebhook_save d2
                        (webhook_record
                           \<lparr>row := (row webhook_record)
                                     \<lparr>wh_processed := True, wh_processed_at := Some now\<rparr>,
                            processing_result := Some result\<rparr>),
                      result)
                 | (d2, Inl e) \<Rightarrow>
                     (PaymentWebhook_save d2
                        (webhook_record\<lparr>processing_result := Some (R_error e None)\<rparr>),
                      R_error e event_id))))"

text \<open>
  \<open>StripeWebhookView.post\<close>, answering with the HTTP status. \<open>json_loads\<close> is the
  library's parser, \<open>None\<close> for its \<open>JSONDecodeError\<close>.
\<close>

definition StripeWebhookView_post ::
  "pylib \<Rightarrow> (string \<Rightarrow> event_data option) \<Rightarrow> settings \<Rightarrow> int \<Rightarrow> db \<Rightarrow> string \<Rightarrow> string \<Rightarrow> db \<times> nat" where
  "StripeWebhookView_post L json_loads st now d payload signature_header =
     (if payload = [] then (d, 400)
      else if signature_header = [] \<and> \<not> DEBUG st then (d, 400)
      else if signature_header \<noteq> []
              \<and> \<not> verify_webhook_signature L st now payload signature_header then (d, 400)
      else if \<not> utf8_valid L payload then (d, 500)
      else
        (case json_loads payload of
           None \<Rightarrow> (d, 400)
         | Some ev \<Rightarrow>
             if \<not> truthy (get_field (ev_type ev)) \<or> \<not> truthy (get_field (ev_id ev))
             then (d, 400)
             else
               (case process_webhook_event now d ev of
                  (d', result) \<Rightarrow>
                    if result_status result = ''error'' then (d', 500) else (d', 200))))"

section \<open>Creating a payment\<close>

text \<open>
  The payment intent the processor answers with. The HTTP call is a parameter:
  \<open>stripe_post amount_cents currency\<close> is the response to \<open>POST payment_intents\<close>, or
  the exception \<open>_make_stripe_request\<close> raises.
\<close>

record intent_data =
  in_id :: string
  in_status :: string
  in_client_secret :: string
  in_amount :: int
  in_currency :: string

definition lower_char :: "char \<Rightarrow> char" where
  "lower_char c =
     (let n = (of_char c :: nat) in if 65 \<le> n \<and> n \<le> 90 then char_of (n + 32) else c)"

definition lower :: "string \<Rightarrow> string" where
  "lower s = map lower_char s"

text \<open>
  \<open>create_payment_intent\<close>: \<open>PaymentAmountError\<close> for an amount that is not positive is
  re-raised; every other exception, the codec's included, becomes \<open>PaymentIntentError\<close>.
\<close>

definition create_payment_intent ::
  "(int \<Rightarrow> string \<Rightarrow> py_error + intent_data) \<Rightarrow> decimal \<Rightarrow> string \<Rightarrow> py_error + intent_data" where
  "create_payment_intent stripe_post amount currency =
     (case dec_gt amount (Finite 0 0) of
        Inl e \<Rightarrow> Inl PaymentIntentError
      | Inr positive \<Rightarrow>
          if \<not> positive then Inl PaymentAmountError
          else
            (case amount_to_cents amount of
               Inl e \<Rightarrow> Inl PaymentIntentError
             | Inr amount_cents \<Rightarrow>
                 (case stripe_post amount_cents (lower currency) of
                    Inl e \<Rightarrow> Inl PaymentIntentError
                  | Inr intent \<Rightarrow> Inr intent)))"

text \<open>
  \<open>CreatePaymentIntentView.post\<close> from the parsed amount on: the local row takes the
  status string of the processor's answer as it is.
\<close>

definition CreatePaymentIntentView_post ::
  "(int \<Rightarrow> string \<Rightarrow> py_error + intent_data) \<Rightarrow> db \<Rightarrow> decimal \<Rightarrow> string \<Rightarrow> db \<times> nat" where
  "CreatePaymentIntentView_post stripe_post d amount_decimal currency =
     (case create_payment_intent stripe_post amount_decimal currency of
        Inl PaymentAmountError \<Rightarrow> (d, 400)
      | Inl e \<Rightarrow> (d, 500)
      | Inr intent \<Rightarrow>
          (case PaymentTransaction_create d (Some (in_id intent)) amount_decimal (upper currency)
                  (Some (in_status intent)) of
             Inl e \<Rightarrow> (d, 500)
           | Inr (d', payment_transaction) \<Rightarrow> (d', 200)))"

text \<open>\<open>_map_stripe_status\<close>: \<open>status_map.get(stripe_status, stripe_status)\<close>\<close>

definition status_map :: "(string \<times> string) list" where
  "status_map =
     [(''requires_payment_method'', ''pending''),
      (''requires_confirmation'', ''pending''),
      (''requires_action'', ''pending''),
      (''processing'', ''processing''),
      (''requires_capture'', ''processing''),
      (''canceled'', ''canceled''),
      (''succeeded'', ''succeeded'')]"

definition map_stripe_status :: "string \<Rightarrow> string" where
  "map_stripe_status stripe_status =
     (case map_of status_map stripe_status of None \<Rightarrow> stripe_status | Some s \<Rightarrow> s)"

text \<open>\<open>PAYMENT_STATUS_CHOICES\<close>\<close>

definition PAYMENT_STATUS_CHOICES :: "string list" where
  "PAYMENT_STATUS_CHOICES = [''pending'', ''processing'', ''succeeded'', ''failed'', ''canceled'']"

text \<open>
  What the database guarantees for the receipts: primary keys are distinct, and the keys in
  use lie below the counter the next key is drawn from.
\<close>

definition webhooks_ok :: "db \<Rightarrow> bool" where
  "webhooks_ok d =
     (distinct (map wh_id (webhooks d)) \<and> list_all (\<lambda>w. wh_id w < next_id d) (webhooks d))"

text \<open>The receipts stored for an event ID.\<close>

definition receipts :: "db \<Rightarrow> string option \<Rightarrow> PaymentWebhook list" where
  "receipts d event_id = filter (\<lambda>w. wh_stripe_event_id w = event_id) (webhooks d)"

section \<open>Concrete library and settings for evaluation\<close>

text \<open>
  A small stand-in for the library parameters, used only to run the model on concrete
  inputs: a decimal parser for \<open>int(str)\<close> on ASCII digits with an optional minus sign,
  and a two-digit checksum in the place of HMAC-SHA256.
\<close>

fun digit_val :: "char \<Rightarrow> nat option" where
  "digit_val c =
     (let n = (of_char c :: nat) in if 48 \<le> n \<and> n \<le> 57 then Some (n - 48) else None)"

fun digits_nat :: "string \<Rightarrow> nat \<Rightarrow> nat option" where
  "digits_nat [] acc = Some acc"
| "digits_nat (c # cs) acc =
     (case digit_val c of None \<Rightarrow> None | Some d \<Rightarrow> digits_nat cs (10 * acc + d))"

definition ascii_decimal :: "string \<Rightarrow> int option" where
  "ascii_decimal s =
     (case s of
        [] \<Rightarrow> None
      | c # cs \<Rightarrow>
          if c = CHR ''-'' then
            (if cs = [] then None else map_option (\<lambda>n. - int n) (digits_nat cs 0))
          else map_option int (digits_nat s 0))"

definition hex_digit :: "nat \<Rightarrow> char" where
  "hex_digit n = ''0123456789abcdef'' ! (n mod 16)"

definition toy_hexdigest :: "string \<Rightarrow> string \<Rightarrow> string" where
  "toy_hexdigest key msg =
     (let s = sum_list (map of_char (key @ msg)) :: nat
      in [hex_digit (s div 16), hex_digit s])"

definition toy_lib :: pylib where
  "toy_lib =
     \<lparr>hmac_sha256_hexdigest = toy_hexdigest, utf8_valid = is_ascii, py_int = ascii_decimal\<rparr>"

definition dev_settings :: settings where
  "dev_settings =
     \<lparr>STRIPE_WEBHOOK_ENDPOINT_SECRET = None, STRIPE_WEBHOOK_SECRET = None, DEBUG = False\<rparr>"

definition prod_settings :: settings where
  "prod_settings =
     \<lparr>STRIPE_WEBHOOK_ENDPOINT_SECRET = None, STRIPE_WEBHOOK_SECRET = Some ''whsec'',
      DEBUG = False\<rparr>"

text \<open>
  A ledger with one payment of 100.00 USD that has succeeded, and the events used below:
  a refund of 150.00 created at the processor, a late \<open>payment_failed\<close> event for the
  same payment, the same event with \<open>last_payment_error: null\<close>, and a
  \<open>payment_intent.succeeded\<close> event.
\<close>

definition payment_100 :: PaymentTransaction where
  "payment_100 =
     \<lparr>pt_id = 1, pt_amount = Finite 10000 (- 2), pt_currency = ''USD'',
      pt_status = Some ''succeeded'', pt_stripe_payment_intent_id = Some ''pi_1'',
      pt_stripe_status = Some ''succeeded'', pt_failure_reason = None,
      pt_processed_at = Some 1000\<rparr>"

definition ledger_succeeded :: db where
  "ledger_succeeded = \<lparr>transactions = [payment_100], refunds = [], webhooks = [], next_id = 2\<rparr>"

definition ledger_pending :: db where
  "ledger_pending =
     \<lparr>transactions = [payment_100\<lparr>pt_status := Some ''pending'', pt_stripe_status := None,
                                    pt_processed_at := None\<rparr>],
      refunds = [], webhooks = [], next_id = 2\<rparr>"

definition refund_150_object :: stripe_object where
  "refund_150_object =
     empty_object\<lparr>obj_id := Val ''re_1'', obj_payment_intent := Val ''pi_1'',
                  obj_amount := Val 15000, obj_currency := Val ''usd'',
                  obj_status := Val ''pending'', obj_reason := Val ''requested_by_customer'',
                  obj_metadata := Val []\<rparr>"

definition ev_refund_150 :: event_data where
  "ev_refund_150 =
     \<lparr>ev_id = Val ''evt_r1'', ev_type = Val ''refund.created'',
      ev_data = Val (Val refund_150_object)\<rparr>"

definition failed_object :: stripe_object where
  "failed_object =
     empty_object\<lparr>obj_id := Val ''pi_1'', obj_status := Val ''requires_payment_method'',
                  obj_amount := Val 10000, obj_currency := Val ''usd'',
                  obj_last_payment_error :=
                    Val \<lparr>err_message = Val ''Your card was declined.'', err_code = Absent\<rparr>\<rparr>"

definition ev_payment_failed :: event_data where
  "ev_payment_failed =
     \<lparr>ev_id = Val ''evt_f1'', ev_type = Val ''payment_intent.payment_failed'',
      ev_data = Val (Val failed_object)\<rparr>"

definition ev_failed_null_error :: event_data where
  "ev_failed_null_error =
     \<lparr>ev_id = Val ''evt_f2'', ev_type = Val ''payment_intent.payment_failed'',
      ev_data = Val (Val (failed_object\<lparr>obj_last_payment_error := Null\<rparr>))\<rparr>"

definition ev_succeeded :: event_data where
  "ev_succeeded =
     \<lparr>ev_id = Val ''evt_s1'', ev_type = Val ''payment_intent.succeeded'',
      ev_data = Val (Val (empty_object\<lparr>obj_id := Val ''pi_1'', obj_status := Val ''succeeded'',
                                       obj_amount := Val 10000, obj_currency := Val ''usd''\<rparr>))\<rparr>"

text \<open>A processor that answers every create call with a new intent awaiting a payment method.\<close>

definition stripe_post_ok :: "int \<Rightarrow> string \<Rightarrow> py_error + intent_data" where
  "stripe_post_ok amount_cents currency =
     Inr \<lparr>in_id = ''pi_2'', in_status = ''requires_payment_method'',
          in_client_secret = ''pi_2_secret'', in_amount = amount_cents, in_currency = currency\<rparr>"

text \<open>A parser stand-in that reads every request body as the event with the \<open>null\<close> error.\<close>

definition loads_null_error :: "string \<Rightarrow> event_data option" where
  "loads_null_error payload = Some ev_failed_null_error"





section \<open>Properties of the signature verifier\<close>

lemma truthy_iff: "truthy x \<longleftrightarrow> (\<exists>s. x = Some s \<and> s \<noteq> [])"
  by (cases x) auto

text \<open>
  Claim C4, as the code has it. The claim says that without a configured secret the
  verifier accepts events only under an explicit insecure or dev-mode flag. The verifier
  reads no such flag: when neither \<open>STRIPE_WEBHOOK_ENDPOINT_SECRET\<close> nor
  \<open>STRIPE_WEBHOOK_SECRET\<close> holds a non-empty value, it answers \<open>True\<close> for every payload
  and every header, whatever \<open>DEBUG\<close> is.
\<close>

theorem verify_without_secret_accepts:
  "\<not> truthy (webhook_secret st) \<Longrightarrow>
   verify_webhook_signature L st now payload signature_header"
  by (simp add: verify_webhook_signature_def)

theorem verify_without_secret_accepts_witness:
  "\<not> truthy (webhook_secret dev_settings)
   \<and> verify_webhook_signature toy_lib dev_settings 0 ''{}'' ''t=1''"
  using verify_without_secret_accepts [of dev_settings toy_lib 0 "''{}''" "''t=1''"]
  by (simp add: dev_settings_def webhook_secret_def)

text \<open>
  Claim C4 fails as stated: a configuration that merely omits both secrets, with
  \<open>DEBUG = False\<close>, accepts a forged header.
\<close>

theorem verify_no_flag_counterexample:
  "verify_webhook_signature toy_lib dev_settings 1301 ''{}'' ''forged'' = True"
  by (simp add: verify_webhook_signature_def dev_settings_def webhook_secret_def)

text \<open>
  Claim C5. With a secret configured, \<open>verify_webhook_signature\<close> answers \<open>True\<close> exactly
  when the header splits into \<open>key=value\<close> items with non-empty \<open>t\<close> and \<open>v1\<close>, the
  payload decodes, \<open>v1\<close> equals the HMAC-SHA256 hex digest of \<open>t.payload\<close> under the
  secret, and \<open>t\<close> parses to a time within 300 seconds of now. So a malformed header, a
  digest mismatch and a timestamp outside the window are each answered \<open>False\<close>; every
  exception of the body is an \<open>Inl\<close> that the wrapper answers \<open>False\<close>, so nothing is
  raised. The comparison is the library's \<open>hmac.compare_digest\<close>.
\<close>

theorem verify_with_secret:
  assumes "truthy (webhook_secret st)"
  shows "verify_webhook_signature L st now payload signature_header \<longleftrightarrow>
    (\<exists>d ts sg n.
        parse_items (split_on CHR '','' signature_header) Map.empty = Inr d
      \<and> d ''t'' = Some ts \<and> ts \<noteq> [] \<and> d ''v1'' = Some sg \<and> sg \<noteq> []
      \<and> utf8_valid L payload
      \<and> is_ascii sg
      \<and> sg = hmac_sha256_hexdigest L (the (webhook_secret st)) (ts @ ''.'' @ payload)
      \<and> py_int L ts = Some n \<and> \<bar>now - n\<bar> \<le> 300)"
proof (cases "parse_items (split_on CHR '','' signature_header) Map.empty")
  case (Inl e)
  with assms show ?thesis
    by (simp add: verify_webhook_signature_def verify_body_def)
next
  case (Inr d)
  with assms show ?thesis
    by (auto simp: verify_webhook_signature_def verify_body_def compare_digest_def Let_def
        truthy_iff split: option.splits)
qed

text \<open>
  The theorem at concrete requests: a valid header inside the window is accepted; the same
  header 301 seconds late, a tampered body, and a header without \<open>v1\<close> are rejected.
\<close>

theorem verify_with_secret_witness:
  "truthy (webhook_secret prod_settings)
   \<and> verify_webhook_signature toy_lib prod_settings 1100 ''{}'' ''t=1000,v1=01''
   \<and> \<not> verify_webhook_signature toy_lib prod_settings 1301 ''{}'' ''t=1000,v1=01''
   \<and> \<not> verify_webhook_signature toy_lib prod_settings 1100 ''{ }'' ''t=1000,v1=01''
   \<and> \<not> verify_webhook_signature toy_lib prod_settings 1100 ''{}'' ''t=1000''"
  using verify_with_secret [of prod_settings toy_lib 1100 "''{}''" "''t=1000,v1=01''"]
    verify_with_secret [of prod_settings toy_lib 1301 "''{}''" "''t=1000,v1=01''"]
    verify_with_secret [of prod_settings toy_lib 1100 "''{ }''" "''t=1000,v1=01''"]
    verify_with_secret [of prod_settings toy_lib 1100 "''{}''" "''t=1000''"]
  by (simp add: prod_settings_def webhook_secret_def toy_lib_def toy_hexdigest_def hex_digit_def
      is_ascii_def ascii_decimal_def)

section \<open>Properties of the money codec\<close>

lemma ndigits_pos: "0 < ndigits n"
  by (subst ndigits.simps) simp

lemma ndigits_le_iff: "0 < k \<Longrightarrow> ndigits n \<le> k \<longleftrightarrow> n < 10 ^ k"
proof (induction n arbitrary: k rule: ndigits.induct)
  case (1 n)
  show ?case
  proof (cases "n < 10")
    case True
    have "(10::nat) ^ 1 \<le> 10 ^ k" using 1(2) by (intro power_increasing) simp_all
    with True 1(2) show ?thesis by (subst ndigits.simps) auto
  next
    case False
    obtain j where k: "k = Suc j" using 1(2) by (cases k) auto
    show ?thesis
    proof (cases "j = 0")
      case True
      with False k show ?thesis using ndigits_pos [of "n div 10"]
        by (subst ndigits.simps) simp
    next
      case j: False
      have "ndigits (n div 10) \<le> j \<longleftrightarrow> n div 10 < 10 ^ j"
        using 1(1)[OF False, of j] j by simp
      moreover have "n div 10 < 10 ^ j \<longleftrightarrow> n < 10 ^ Suc j"
        by (simp add: div_less_iff_less_mult mult.commute)
      ultimately show ?thesis using False k by (subst ndigits.simps) simp
    qed
  qed
qed

lemma ndigits_mult_pow: "0 < n \<Longrightarrow> ndigits (n * 10 ^ j) = ndigits n + j"
proof (induction j)
  case 0 show ?case by simp
next
  case (Suc j)
  have "10 ^ Suc j \<le> n * 10 ^ Suc j" using Suc.prems by simp
  moreover have "(10::nat) \<le> 10 ^ Suc j" by simp
  ultimately have "\<not> n * 10 ^ Suc j < 10" by linarith
  moreover have "n * 10 ^ Suc j div 10 = n * 10 ^ j" by simp
  ultimately show ?case using Suc by (subst ndigits.simps) simp
qed

lemma round_half_even_exact: "round_half_even (q * 10 ^ k) k = q"
  by (simp add: round_half_even_def)

text \<open>A coefficient that fits the precision is left as it is.\<close>

lemma dec_fix_fits_abs:
  assumes "\<bar>c\<bar> < 10 ^ 28" "- 28 \<le> e" "e \<le> 28"
  shows "dec_fix c e = Inr (Finite c e)"
proof -
  have "nat \<bar>c\<bar> < nat (10 ^ 28)" using assms(1) by (simp only: nat_mono_iff)
  then have "nat \<bar>c\<bar> < 10 ^ 28" by (simp add: nat_power_eq)
  then have "ndigits (nat \<bar>c\<bar>) \<le> 28" by (simp add: ndigits_le_iff)
  then show ?thesis using assms(2,3)
    by (simp add: dec_fix_def Let_def prec_def Etop_def Etiny_def Emax_def Emin_def)
qed

lemma dec_fix_fits:
  assumes "0 < c" "c < 10 ^ 28" "- 28 \<le> e" "e \<le> 28"
  shows "dec_fix c e = Inr (Finite c e)"
proof -
  have "nat c < 10 ^ 28" using assms(1,2) by (simp add: nat_less_iff)
  then have "ndigits (nat c) \<le> 28" by (simp add: ndigits_le_iff)
  then show ?thesis using assms
    by (simp add: dec_fix_def Let_def prec_def Etop_def Etiny_def Emax_def Emin_def)
qed

text \<open>Trailing zeros beyond the precision are dropped without changing the value.\<close>

lemma dec_fix_zeros:
  assumes "0 < q" "ndigits q = 28" "0 < k" "- 56 \<le> e + int k" "e + int k \<le> 56"
  shows "dec_fix (int (q * 10 ^ k)) e = Inr (Finite (int q) (e + int k))"
proof -
  have d: "ndigits (q * 10 ^ k) = 28 + k" using assms(1,2) by (simp add: ndigits_mult_pow)
  have pos: "int q * 10 ^ k \<noteq> 0" "0 < int q * 10 ^ k" using assms(1) by simp_all
  have n: "nat (int q * 10 ^ k) = q * 10 ^ k"
    by (simp add: nat_mult_distrib nat_power_eq)
  show ?thesis using assms pos
    by (simp add: dec_fix_def Let_def n d prec_def Etop_def Etiny_def Emax_def Emin_def
        round_half_even_exact)
qed


lemma int_less_pow10: "m < 10 ^ k \<Longrightarrow> int m < 10 ^ k"
  by (metis of_nat_less_iff of_nat_numeral of_nat_power)

lemma to_int_shift: "0 < n \<Longrightarrow> dec_to_int (Finite (int (n * 10 ^ i)) (- int i)) = Inr (int n)"
  by (simp add: sgn_if)

lemma to_int_nonneg: "0 \<le> e \<Longrightarrow> dec_to_int (Finite (int m) e) = Inr (int (m * 10 ^ nat e))"
  by simp


text \<open>
  A positive coefficient whose value \<open>m * 10 ^ e\<close> is an integer below \<open>10 ^ 28\<close> keeps
  that value through the context, and \<open>int\<close> reads it back.
\<close>

lemma dec_fix_integer_value:
  assumes m: "0 < m" and n: "0 < n" "n < 10 ^ 28"
    and v: "(0 \<le> e \<and> n = m * 10 ^ nat e) \<or> (e < 0 \<and> m = n * 10 ^ nat (- e))"
  shows "\<exists>c' e'. dec_fix (int m) e = Inr (Finite c' e') \<and> dec_to_int (Finite c' e') = Inr (int n)"
proof -
  have dn: "ndigits n \<le> 28" using n by (simp add: ndigits_le_iff)
  from v show ?thesis
  proof (elim disjE conjE)
    assume e: "0 \<le> e" and nm: "n = m * 10 ^ nat e"
    have "m \<le> n" using nm by simp
    then have "m < 10 ^ 28" using n(2) by simp
    then have m28: "int m < 10 ^ 28" by (rule int_less_pow10)
    have "e \<le> 28"
    proof (rule ccontr)
      assume "\<not> e \<le> 28"
      then have "28 \<le> nat e" by simp
      then have "(10::nat) ^ 28 \<le> 10 ^ nat e" by (intro power_increasing) simp_all
      also have "\<dots> \<le> m * 10 ^ nat e" using m by simp
      finally show False using n(2) nm by simp
    qed
    then have "dec_fix (int m) e = Inr (Finite (int m) e)"
      using m m28 e by (intro dec_fix_fits) simp_all
    moreover have "dec_to_int (Finite (int m) e) = Inr (int n)"
      using e nm by (simp only: to_int_nonneg)
    ultimately show ?thesis by blast
  next
    assume e: "e < 0" and mn: "m = n * 10 ^ nat (- e)"
    define i where "i = nat (- e)"
    define t where "t = 28 - ndigits n"
    have ei: "e = - int i" and i: "0 < i" using e by (simp_all add: i_def)
    have mn': "m = n * 10 ^ i" using mn by (simp add: i_def)
    have dm: "ndigits m = ndigits n + i" using n(1) by (simp add: mn' ndigits_mult_pow)
    show ?thesis
    proof (cases "i \<le> t")
      case True
      then have "ndigits m \<le> 28" using dn dm by (simp add: t_def)
      then have "m < 10 ^ 28" by (simp add: ndigits_le_iff)
      then have m28: "int m < 10 ^ 28" by (rule int_less_pow10)
      have "i \<le> 28" using True by (simp add: t_def)
      then have "dec_fix (int m) e = Inr (Finite (int m) e)"
        using m m28 ei by (intro dec_fix_fits) simp_all
      moreover have "dec_to_int (Finite (int m) e) = Inr (int n)"
        unfolding mn' ei using n(1) by (rule to_int_shift)
      ultimately show ?thesis by blast
    next
      case False
      define q where "q = n * 10 ^ t"
      define k where "k = i - t"
      have k: "0 < k" "i = t + k" using False by (simp_all add: k_def)
      have q: "0 < q" "ndigits q = 28" using n(1) dn
        by (simp_all add: q_def ndigits_mult_pow t_def)
      have mq: "m = q * 10 ^ k" by (simp add: mn' q_def k(2) power_add)
      have ek: "e + int k = - int t" using k(2) ei by simp
      have "t \<le> 28" by (simp add: t_def)
      then have "dec_fix (int (q * 10 ^ k)) e = Inr (Finite (int q) (e + int k))"
        using q k(1) ek by (intro dec_fix_zeros) simp_all
      then have "dec_fix (int m) e = Inr (Finite (int q) (- int t))" by (simp only: mq ek)
      moreover have "dec_to_int (Finite (int q) (- int t)) = Inr (int n)"
        unfolding q_def using n(1) by (rule to_int_shift)
      ultimately show ?thesis by blast
    qed
  qed
qed


lemma dec_fix_integer_value_int:
  assumes c: "0 < c" and n: "0 < n" "n < 10 ^ 28"
    and v: "(0 \<le> e \<and> n = c * 10 ^ nat e) \<or> (e < 0 \<and> c = n * 10 ^ nat (- e))"
  shows "\<exists>c' e'. dec_fix c e = Inr (Finite c' e') \<and> dec_to_int (Finite c' e') = Inr n"
proof -
  have 1: "0 < nat c" "0 < nat n" using c n(1) by simp_all
  have "nat n < nat (10 ^ 28)" using n by (simp only: nat_mono_iff)
  then have 2: "nat n < 10 ^ 28" by (simp add: nat_power_eq)
  have 3: "(0 \<le> e \<and> nat n = nat c * 10 ^ nat e) \<or> (e < 0 \<and> nat c = nat n * 10 ^ nat (- e))"
    using v c n(1) by (auto simp: nat_mult_distrib nat_power_eq)
  from dec_fix_integer_value [OF 1 2 3] show ?thesis using c n(1) by simp
qed

lemma amount_to_cents_exact:
  assumes "exact_cents a = Some n" "0 < n" "n < 10 ^ 28"
  shows "amount_to_cents a = Inr n"
proof -
  obtain c e where a: "a = Finite c e" using assms(1) by (cases a) (simp_all add: exact_cents_def)
  have v: "(0 \<le> e \<and> n = (c * 100) * 10 ^ nat e) \<or> (e < 0 \<and> c * 100 = n * 10 ^ nat (- e))"
  proof (cases "- 2 \<le> e")
    case True
    then have n: "n = c * 10 ^ nat (e + 2)" using assms(1) by (simp add: a exact_cents_def)
    consider "0 \<le> e" | "e = - 1" | "e = - 2" using True by linarith
    then show ?thesis
    proof cases
      case 1
      then have "nat (e + 2) = nat e + 2" by simp
      then show ?thesis using 1 n by (simp add: power_add)
    qed (simp_all add: n)
  next
    case False
    define j where "j = nat (- 2 - e)"
    have "c mod 10 ^ j = 0" and n: "n = c div 10 ^ j" using assms(1) False
      by (auto simp: a exact_cents_def j_def split: if_splits)
    then have c: "c = n * 10 ^ j" by auto
    have "nat (- e) = j + 2" using False by (simp add: j_def)
    then show ?thesis using False by (simp add: c power_add)
  qed
  have "0 < c * 100"
  proof (rule ccontr)
    assume "\<not> 0 < c * 100"
    then have c0: "c * 100 \<le> 0" by simp
    from v show False
    proof (elim disjE conjE)
      assume "n = c * 100 * 10 ^ nat e"
      moreover have "c * 100 * 10 ^ nat e \<le> 0" using c0 by (intro mult_nonpos_nonneg) simp_all
      ultimately show False using assms(2) by simp
    next
      assume "c * 100 = n * 10 ^ nat (- e)"
      moreover have "0 < n * 10 ^ nat (- e)" using assms(2) by simp
      ultimately show False using c0 by simp
    qed
  qed
  from dec_fix_integer_value_int [OF this assms(2,3) v] show ?thesis
    by (auto simp: a amount_to_cents_def)
qed

lemma strip_zeros_spec:
  "strip_zeros c g = (c', g') \<Longrightarrow>
   g' \<le> g \<and> c = c' * 10 ^ (g - g') \<and> (g' = 0 \<or> c' mod 10 \<noteq> 0)"
proof (induction c g arbitrary: c' g' rule: strip_zeros.induct)
  case (1 coeff gap)
  show ?case
  proof (cases "0 < gap \<and> coeff mod 10 = 0")
    case True
    then have s: "strip_zeros (coeff div 10) (gap - 1) = (c', g')"
      using "1.prems" by (subst (asm) strip_zeros.simps) simp
    from "1.IH" [OF True s] have ih: "g' \<le> gap - 1" "coeff div 10 = c' * 10 ^ (gap - 1 - g')"
      "g' = 0 \<or> c' mod 10 \<noteq> 0" by simp_all
    have "coeff = coeff div 10 * 10" using True by (simp add: mod_eq_0_iff_dvd)
    also have "\<dots> = c' * 10 ^ (gap - 1 - g') * 10" by (simp only: ih(2))
    also have "\<dots> = c' * 10 ^ Suc (gap - 1 - g')" by simp
    also have "Suc (gap - 1 - g') = gap - g'" using True ih(1) by arith
    finally show ?thesis using ih(1,3) by simp
  next
    case False
    then have "strip_zeros coeff gap = (coeff, gap)"
      by (subst strip_zeros.simps) (simp only: if_False)
    with "1.prems" have "c' = coeff" "g' = gap" by simp_all
    then show ?thesis using False by auto
  qed
qed

lemma cents_to_amount_exact:
  assumes "0 < n" "n < 10 ^ 28"
  shows "\<exists>c g. cents_to_amount n = Inr (Finite c (- int g)) \<and> g \<le> 2 \<and> n = c * 10 ^ (2 - g)"
proof -
  define m where "m = nat n"
  have mpos: "0 < m" and nm: "n = int m" using assms(1) by (simp_all add: m_def)
  have "nat n < nat (10 ^ 28)" using assms by (simp only: nat_mono_iff)
  then have m28: "m < 10 ^ 28" by (simp add: m_def nat_power_eq)
  then have dm: "ndigits m \<le> 28" by (simp add: ndigits_le_iff)
  define sh where "sh = 32 - ndigits m"
  have sh4: "4 \<le> sh" using dm by (simp add: sh_def)
  have shift: "3 - int (ndigits m) + int prec + 1 = int sh" using dm by (simp add: sh_def prec_def)
  have p: "(10::nat) ^ sh = 10 ^ (sh - 2) * 100"
  proof -
    have "sh = (sh - 2) + 2" using sh4 by simp
    then have "(10::nat) ^ sh = 10 ^ (sh - 2) * 10 ^ 2" by (metis power_add)
    then show ?thesis by simp
  qed
  have q: "m * 10 ^ sh div 100 = m * 10 ^ (sh - 2)" "m * 10 ^ sh mod 100 = 0"
    by (simp_all add: p)
  obtain c' g' where s: "strip_zeros (m * 10 ^ (sh - 2)) sh = (c', g')"
    by (cases "strip_zeros (m * 10 ^ (sh - 2)) sh")
  from strip_zeros_spec [OF s] have sp: "g' \<le> sh" "m * 10 ^ (sh - 2) = c' * 10 ^ (sh - g')"
    "g' = 0 \<or> c' mod 10 \<noteq> 0" by simp_all
  have g2: "g' \<le> 2"
  proof (rule ccontr)
    assume "\<not> g' \<le> 2"
    then have g: "2 < g'" by simp
    then have "sh - 2 = (sh - g') + (g' - 2)" using sp(1) by simp
    then have "m * 10 ^ (sh - 2) = m * 10 ^ (g' - 2) * 10 ^ (sh - g')"
      by (simp add: power_add mult.assoc mult.commute)
    with sp(2) have "c' = m * 10 ^ (g' - 2)" by simp
    moreover have "(10::nat) ^ (g' - 2) = 10 * 10 ^ (g' - 3)"
    proof -
      have "g' - 2 = Suc (g' - 3)" using g by simp
      then show ?thesis by simp
    qed
    ultimately have "c' mod 10 = 0" by simp
    with sp(3) g show False by simp
  qed
  have mc: "m = c' * 10 ^ (2 - g')"
  proof -
    have "sh - g' = (2 - g') + (sh - 2)" using g2 sh4 by simp
    then have "c' * 10 ^ (sh - g') = c' * 10 ^ (2 - g') * 10 ^ (sh - 2)"
      by (simp add: power_add mult.assoc)
    with sp(2) show ?thesis by simp
  qed
  have c'pos: "0 < c'" using mc mpos by (cases "c' = 0") simp_all
  have "c' \<le> m" using mc by simp
  then have "c' < 10 ^ 28" using m28 by simp
  then have c28: "int c' < 10 ^ 28" by (rule int_less_pow10)
  have fx: "dec_fix (int c') (- int g') = Inr (Finite (int c') (- int g'))"
    using c'pos c28 g2 by (intro dec_fix_fits) simp_all
  have "divide_by_100 1 m (int sh) = Inr (Finite (int c') (- int g'))"
    using sh4 by (simp add: divide_by_100_def q s fx Let_def)
  moreover have "cents_to_amount n = divide_by_100 1 m (3 - int (ndigits m) + int prec + 1)"
    using mpos by (simp add: cents_to_amount_def nm)
  ultimately have "cents_to_amount n = Inr (Finite (int c') (- int g'))"
    by (simp only: shift)
  moreover have "n = int c' * 10 ^ (2 - g')" by (simp add: nm mc)
  ultimately show ?thesis using g2 by blast
qed

lemma cents_to_amount_exact_cents:
  assumes "0 < n" "n < 10 ^ 28"
  shows "\<exists>b. cents_to_amount n = Inr b \<and> exact_cents b = Some n"
proof -
  from cents_to_amount_exact [OF assms] obtain c g where
    b: "cents_to_amount n = Inr (Finite c (- int g))" and g: "g \<le> 2" and n: "n = c * 10 ^ (2 - g)"
    by blast
  have "nat (2 - int g) = 2 - g" using g by simp
  then have "exact_cents (Finite c (- int g)) = Some n" using g n by (simp add: exact_cents_def)
  with b show ?thesis by blast
qed

lemma pow_split:
  "nat x = nat y + nat z \<Longrightarrow> (c::int) * 10 ^ nat x = c * 10 ^ nat y * 10 ^ nat z"
  by (simp only: power_add mult.assoc)

lemma exact_cents_same_dec_eq:
  assumes "exact_cents a = Some n" "exact_cents b = Some n"
  shows "dec_eq b a"
proof -
  obtain c1 e1 where b: "b = Finite c1 e1" using assms(2) by (cases b) (simp_all add: exact_cents_def)
  obtain c2 e2 where a: "a = Finite c2 e2" using assms(1) by (cases a) (simp_all add: exact_cents_def)
  have v: "\<And>c e. exact_cents (Finite c e) = Some n \<Longrightarrow>
            (- 2 \<le> e \<and> n = c * 10 ^ nat (e + 2)) \<or> (e < - 2 \<and> c = n * 10 ^ nat (- 2 - e))"
    by (auto simp: exact_cents_def split: if_splits)
  have pw: "\<And>x y :: int. x \<le> y \<Longrightarrow> (10::int) ^ nat (y - x) * 10 ^ nat x' = 10 ^ nat (y - x + x')"
    if "0 \<le> x'" for x'
    using that by (simp add: nat_add_distrib power_add)
  from v [OF assms(2) [unfolded b]] v [OF assms(1) [unfolded a]]
  show ?thesis
  proof (elim disjE conjE)
    assume h: "- 2 \<le> e1" "n = c1 * 10 ^ nat (e1 + 2)" "- 2 \<le> e2" "n = c2 * 10 ^ nat (e2 + 2)"
    show ?thesis
    proof (cases "e1 \<le> e2")
      case True
      have "nat (e2 + 2) = nat (e2 - e1) + nat (e1 + 2)" using True h(1) by simp
      then have "c2 * 10 ^ nat (e2 + 2) = c2 * 10 ^ nat (e2 - e1) * 10 ^ nat (e1 + 2)"
        by (rule pow_split)
      with h(2,4) have "c1 = c2 * 10 ^ nat (e2 - e1)" by simp
      then show ?thesis using True by (simp add: a b)
    next
      case False
      have "nat (e1 + 2) = nat (e1 - e2) + nat (e2 + 2)" using False h(3) by simp
      then have "c1 * 10 ^ nat (e1 + 2) = c1 * 10 ^ nat (e1 - e2) * 10 ^ nat (e2 + 2)"
        by (rule pow_split)
      with h(2,4) have "c1 * 10 ^ nat (e1 - e2) = c2" by simp
      then show ?thesis using False by (simp add: a b)
    qed
  next
    assume h: "- 2 \<le> e1" "n = c1 * 10 ^ nat (e1 + 2)" "e2 < - 2" "c2 = n * 10 ^ nat (- 2 - e2)"
    have "nat (e1 - e2) = nat (e1 + 2) + nat (- 2 - e2)" using h(1,3) by simp
    then have "c1 * 10 ^ nat (e1 - e2) = c1 * 10 ^ nat (e1 + 2) * 10 ^ nat (- 2 - e2)"
      by (rule pow_split)
    then have "c1 * 10 ^ nat (e1 - e2) = c2" using h(2,4) by simp
    then show ?thesis using h(1,3) by (simp add: a b)
  next
    assume h: "e1 < - 2" "c1 = n * 10 ^ nat (- 2 - e1)" "- 2 \<le> e2" "n = c2 * 10 ^ nat (e2 + 2)"
    have "nat (e2 - e1) = nat (e2 + 2) + nat (- 2 - e1)" using h(1,3) by simp
    then have "(10::int) ^ nat (e2 - e1) = 10 ^ nat (e2 + 2) * 10 ^ nat (- 2 - e1)"
      by (simp only: power_add)
    then have "c1 = c2 * 10 ^ nat (e2 - e1)" using h(2,4) by (simp add: mult.assoc)
    then show ?thesis using h(1,3) by (simp add: a b)
  next
    assume h: "e1 < - 2" "c1 = n * 10 ^ nat (- 2 - e1)" "e2 < - 2" "c2 = n * 10 ^ nat (- 2 - e2)"
    show ?thesis
    proof (cases "e1 \<le> e2")
      case True
      have "nat (- 2 - e1) = nat (- 2 - e2) + nat (e2 - e1)" using True h(3) by simp
      then have "n * 10 ^ nat (- 2 - e1) = n * 10 ^ nat (- 2 - e2) * 10 ^ nat (e2 - e1)"
        by (rule pow_split)
      then have "c1 = c2 * 10 ^ nat (e2 - e1)" unfolding h(2,4) .
      then show ?thesis using True by (simp add: a b)
    next
      case False
      have "nat (- 2 - e2) = nat (- 2 - e1) + nat (e1 - e2)" using False h(1) by simp
      then have "n * 10 ^ nat (- 2 - e2) = n * 10 ^ nat (- 2 - e1) * 10 ^ nat (e1 - e2)"
        by (rule pow_split)
      then have "c1 * 10 ^ nat (e1 - e2) = c2" unfolding h(2,4) by (rule sym)
      then show ?thesis using False by (simp add: a b)
    qed
  qed
qed

lemma cents_to_amount_zero: "cents_to_amount 0 = Inr (Finite 0 0)"
  by (simp add: cents_to_amount_def dec_fix_def Etiny_def Emin_def Emax_def prec_def)

lemmas codec_eval = amount_to_cents_def cents_to_amount_def divide_by_100_def strip_zeros.simps
  dec_fix_def ndigits.simps prec_def Etop_def Etiny_def Emax_def Emin_def round_half_even_def
  Let_def exact_cents_def

text \<open>
  Claim C6, as the code has it. The claim says \<open>fromMinorUnits(toMinorUnits(A)) == A\<close> for
  every positive amount with at most two fractional digits. The product \<open>amount * 100\<close> is
  rounded to 28 significant digits, so the round trip is exact when the amount in cents is
  below \<open>10 ^ 28\<close>: then \<open>_amount_to_cents\<close> returns exactly the cents and
  \<open>_cents_to_amount\<close> returns a decimal equal to the amount.
\<close>

theorem codec_roundtrip_amount:
  assumes "exact_cents a = Some n" "0 < n" "n < 10 ^ 28"
  shows "(case amount_to_cents a of
            Inl err \<Rightarrow> False
          | Inr cents \<Rightarrow>
              cents = n \<and> (case cents_to_amount cents of Inl err \<Rightarrow> False | Inr b \<Rightarrow> dec_eq b a))"
proof -
  from cents_to_amount_exact_cents [OF assms(2,3)] obtain b where
    b: "cents_to_amount n = Inr b" "exact_cents b = Some n" by blast
  have "dec_eq b a" using assms(1) b(2) by (rule exact_cents_same_dec_eq)
  then show ?thesis using assms b(1) by (simp add: amount_to_cents_exact)
qed

theorem codec_roundtrip_amount_witness:
  "exact_cents (Finite 1599 (- 2)) = Some 1599 \<and> (0::int) < 1599 \<and> (1599::int) < 10 ^ 28
   \<and> amount_to_cents (Finite 1599 (- 2)) = Inr 1599
   \<and> cents_to_amount 1599 = Inr (Finite 1599 (- 2))
   \<and> dec_eq (Finite 1599 (- 2)) (Finite 1599 (- 2))"
  using codec_roundtrip_amount [of "Finite 1599 (- 2)" 1599]
  by (simp add: codec_eval)

text \<open>
  Claim C6 fails as stated at \<open>Decimal('123456789012345678901234567.89')\<close>, a positive
  amount with two fractional digits and 29 significant digits: the product is rounded to
  \<open>1.234567890123456789012345679E+28\<close>, and the amount that comes back differs.
\<close>

theorem codec_roundtrip_amount_counterexample:
  "exact_cents (Finite 12345678901234567890123456789 (- 2)) = Some 12345678901234567890123456789
   \<and> amount_to_cents (Finite 12345678901234567890123456789 (- 2))
       = Inr 12345678901234567890123456790
   \<and> cents_to_amount 12345678901234567890123456790
       = Inr (Finite 1234567890123456789012345679 (- 1))
   \<and> \<not> dec_eq (Finite 1234567890123456789012345679 (- 1))
         (Finite 12345678901234567890123456789 (- 2))"
  by (simp add: codec_eval)

text \<open>
  Claim C10, as the code has it. The claim says \<open>toMinorUnits(fromMinorUnits(n)) == n\<close> for
  every nonnegative integer. The quotient \<open>Decimal(str(n)) / 100\<close> is rounded to 28
  significant digits, so the round trip is exact for \<open>0 \<le> n < 10 ^ 28\<close>.
\<close>

theorem codec_roundtrip_cents:
  assumes "0 \<le> n" "n < 10 ^ 28"
  shows "(case cents_to_amount n of Inl err \<Rightarrow> False | Inr a \<Rightarrow> amount_to_cents a = Inr n)"
proof (cases "n = 0")
  case True
  then show ?thesis
    by (simp add: cents_to_amount_zero amount_to_cents_def dec_fix_def Etiny_def Emin_def Emax_def
        prec_def)
next
  case False
  then have n: "0 < n" using assms(1) by simp
  from cents_to_amount_exact_cents [OF n assms(2)] obtain b where
    b: "cents_to_amount n = Inr b" "exact_cents b = Some n" by blast
  then show ?thesis using n assms(2) by (simp add: amount_to_cents_exact)
qed

theorem codec_roundtrip_cents_witness:
  "(0::int) \<le> 1050 \<and> (1050::int) < 10 ^ 28
   \<and> cents_to_amount 1050 = Inr (Finite 105 (- 1))
   \<and> amount_to_cents (Finite 105 (- 1)) = Inr 1050"
  using codec_roundtrip_cents [of 1050]
  by (simp add: codec_eval)

text \<open>
  Claim C10 fails as stated at \<open>n = 10 ^ 28 + 1\<close>: the quotient is rounded to
  \<open>1.000000000000000000000000000E+26\<close> and \<open>10 ^ 28\<close> comes back.
\<close>

theorem codec_roundtrip_cents_counterexample:
  "cents_to_amount 10000000000000000000000000001
     = Inr (Finite 1000000000000000000000000000 (- 1))
   \<and> amount_to_cents (Finite 1000000000000000000000000000 (- 1))
     = Inr 10000000000000000000000000000"
  by (simp add: codec_eval)

lemma round_half_even_le: "round_half_even m k \<le> m + 1"
proof -
  have h: "m div 10 ^ k \<le> Suc m" by (rule le_SucI [OF div_le_dividend])
  show ?thesis by (simp add: round_half_even_def Let_def h)
qed

lemma small_div_zero:
  assumes "0 \<le> (x::int)" "x < 10 ^ 29" "29 \<le> n"
  shows "x div 10 ^ n = 0"
proof -
  have "(10::int) ^ 29 \<le> 10 ^ n" using assms(3) by (intro power_increasing) simp_all
  then have "x < 10 ^ n" using assms(2) by linarith
  then show ?thesis using assms(1) by simp
qed

text \<open>Below \<open>Etiny\<close> the value is rounded at \<open>Etiny\<close>; what is left is far smaller than 1.\<close>

lemma dec_fix_below_Etiny:
  assumes "x \<noteq> 0" "\<bar>x\<bar> < 10 ^ 28" "e < - 1000026"
  shows "\<exists>q e'. dec_fix x e = Inr (Finite (sgn x * int q) e') \<and> int q < 10 ^ 29 \<and> e' \<le> - 1000025"
proof -
  define m where "m = nat \<bar>x\<bar>"
  define k where "k = nat (- 1000026 - e)"
  define q where "q = round_half_even m k"
  have "nat \<bar>x\<bar> < nat (10 ^ 28)" using assms(2) by (simp only: nat_mono_iff)
  then have m28: "m < 10 ^ 28" by (simp add: m_def nat_power_eq)
  then have dm: "ndigits m \<le> 28" by (simp add: ndigits_le_iff)
  have ql: "q \<le> 10 ^ 28" using round_half_even_le [of m k] m28 by (simp add: q_def)
  have q10: "q div 10 \<le> 10 ^ 28" using ql by (meson div_le_dividend le_trans)
  have b1: "int q < 10 ^ 29"
  proof -
    have "q < 10 ^ 29" using ql by (rule le_less_trans) simp
    then show ?thesis by (rule int_less_pow10)
  qed
  have b2: "int (q div 10) < 10 ^ 29"
  proof -
    have "q div 10 < 10 ^ 29" using q10 by (rule le_less_trans) simp
    then show ?thesis by (rule int_less_pow10)
  qed
  have em: "max (int (ndigits m) + e - 28) (- 1000026) = - 1000026"
    using dm assms(3) by simp
  have "dec_fix x e = Inr (Finite (sgn x * int (if ndigits q > 28 then q div 10 else q))
                            (if ndigits q > 28 then - 1000025 else - 1000026))"
    using assms(1,3) dm
    by (simp add: dec_fix_def Let_def prec_def Etop_def Etiny_def Emax_def Emin_def em
        flip: m_def k_def q_def)
  then show ?thesis using b1 b2 by (cases "ndigits q > 28") auto
qed

text \<open>
  Claim C7, as the code has it. The claim says \<open>_amount_to_cents\<close> fails with an
  invalid-amount error on an input that is not positive or has more than two decimals.
  The function validates nothing: for every finite amount \<open>c * 10 ^ e\<close> whose product by
  100 keeps its coefficient within the 28 digits of the precision and whose exponent is at
  most 999972, so that nothing is rounded away above the units and nothing overflows, it
  returns that product truncated toward zero, whatever the sign and however many decimals.
\<close>

theorem amount_to_cents_truncates:
  assumes "\<bar>c\<bar> * 100 < 10 ^ 28" "e \<le> 999972"
  shows "amount_to_cents (Finite c e)
           = Inr (if 0 \<le> e then c * 100 * 10 ^ nat e
                  else sgn c * (\<bar>c\<bar> * 100 div 10 ^ nat (- e)))"
proof (cases "c = 0")
  case True
  then show ?thesis using assms(2)
    by (simp add: amount_to_cents_def dec_fix_def Etiny_def Emin_def Emax_def prec_def)
next
  case False
  have a: "\<bar>c * 100\<bar> < 10 ^ 28" using assms(1) by (simp add: abs_mult)
  show ?thesis
  proof (cases "- 1000026 \<le> e")
    case True
    have "nat \<bar>c * 100\<bar> < nat (10 ^ 28)" using a by (simp only: nat_mono_iff)
    then have "nat \<bar>c * 100\<bar> < 10 ^ 28" by (simp add: nat_power_eq)
    then have d: "ndigits (nat \<bar>c * 100\<bar>) \<le> 28" by (simp add: ndigits_le_iff)
    have 1: "\<not> 999972 < int (ndigits (nat \<bar>c * 100\<bar>)) + e - 28"
      using d assms(2) by linarith
    have 2: "\<not> e < max (int (ndigits (nat \<bar>c * 100\<bar>)) + e - 28) (- 1000026)"
      using d True by linarith
    have "dec_fix (c * 100) e = Inr (Finite (c * 100) e)"
      using False 1 2
      by (simp add: dec_fix_def Let_def prec_def Etop_def Etiny_def Emax_def Emin_def
          del: max_less_iff_conj)
    then show ?thesis
      by (simp add: amount_to_cents_def abs_mult sgn_mult)
  next
    case low: False
    then have e: "e < - 1000026" by simp
    from dec_fix_below_Etiny [OF _ a e] False obtain q e' where
      f: "dec_fix (c * 100) e = Inr (Finite (sgn (c * 100) * int q) e')"
      and q: "int q < 10 ^ 29" and e': "e' \<le> - 1000025" by auto
    have "\<bar>sgn (c * 100) * int q\<bar> div 10 ^ nat (- e') = 0"
      using q e' False by (intro small_div_zero) (simp_all add: abs_mult abs_sgn_eq)
    moreover have "\<bar>c\<bar> * 100 div 10 ^ nat (- e) = 0"
      using assms(1) e by (intro small_div_zero) simp_all
    ultimately show ?thesis using e e'
      by (simp add: amount_to_cents_def f)
  qed
qed

theorem amount_to_cents_truncates_witness:
  "\<bar>10999::int\<bar> * 100 < 10 ^ 28 \<and> (- 3::int) \<le> 999972
   \<and> amount_to_cents (Finite 10999 (- 3)) = Inr 1099
   \<and> amount_to_cents (Finite 5 1) = Inr 5000
   \<and> amount_to_cents (Finite 1 (- 30)) = Inr 0
   \<and> amount_to_cents (Finite (- 500) (- 2)) = Inr (- 500)"
  using amount_to_cents_truncates [of 10999 "- 3"] amount_to_cents_truncates [of 5 1]
    amount_to_cents_truncates [of 1 "- 30"] amount_to_cents_truncates [of "- 500" "- 2"]
  by simp

text \<open>
  Claim C7 fails as stated: \<open>Decimal('10.999')\<close> gives 1099, \<open>Decimal('-5.00')\<close> gives
  \<open>-500\<close> and \<open>Decimal('0')\<close> gives 0, each an integer and not an error.
\<close>

theorem amount_to_cents_counterexample:
  "amount_to_cents (Finite 10999 (- 3)) = Inr 1099
   \<and> amount_to_cents (Finite (- 500) (- 2)) = Inr (- 500)
   \<and> amount_to_cents (Finite 0 0) = Inr 0"
  by (simp add: codec_eval)

section \<open>Properties of the ledger and the dispatcher\<close>

subsection \<open>Lookups and saves\<close>

lemma orm_get_Inr: "orm_get P rows = Inr r \<Longrightarrow> filter P rows = [r]"
  by (auto simp: orm_get_def split: list.splits)

lemma orm_get_mem: "orm_get P rows = Inr r \<Longrightarrow> r \<in> set rows \<and> P r"
proof -
  assume "orm_get P rows = Inr r"
  then have "r \<in> set (filter P rows)" by (simp add: orm_get_Inr)
  then show ?thesis by simp
qed

lemma PaymentTransaction_save_row:
  assumes "PaymentTransaction_save now d self = Inr d'" "t \<in> set (transactions d)"
    "pt_id t = pt_id self"
  shows "\<exists>t' \<in> set (transactions d'). pt_id t' = pt_id self \<and> pt_status t' = pt_status self
           \<and> pt_stripe_payment_intent_id t' = pt_stripe_payment_intent_id self"
proof -
  from assms(1) obtain self1 a where
    d': "d' = d\<lparr>transactions := map (\<lambda>r. if pt_id r = pt_id self then self1\<lparr>pt_amount := a\<rparr> else r)
                   (transactions d)\<rparr>"
    and s1: "pt_id self1 = pt_id self" "pt_status self1 = pt_status self"
      "pt_stripe_payment_intent_id self1 = pt_stripe_payment_intent_id self"
    by (auto simp: PaymentTransaction_save_def Let_def split: sum.splits if_splits)
  have "self1\<lparr>pt_amount := a\<rparr> \<in> set (transactions d')"
    using assms(2,3) by (force simp: d' image_iff)
  then show ?thesis using s1 by (intro bexI [of _ "self1\<lparr>pt_amount := a\<rparr>"]) simp_all
qed

lemma PaymentTransaction_save_other:
  "PaymentTransaction_save now d self = Inr d' \<Longrightarrow>
   webhooks d' = webhooks d \<and> refunds d' = refunds d \<and> next_id d' = next_id d"
  by (auto simp: PaymentTransaction_save_def Let_def split: sum.splits if_splits)

lemma payment_intent_webhook_status:
  assumes "handle_payment_intent_webhook now d event_type (Some payment_intent)
             = (d', Inr (R_processed_intent et pid old_status new_status tid))"
  shows "\<exists>t \<in> set (transactions d). \<exists>t' \<in> set (transactions d').
           pt_id t = tid \<and> pt_id t' = tid \<and> pt_status t = old_status
         \<and> pt_stripe_payment_intent_id t = get_field (obj_id payment_intent)
         \<and> pt_stripe_payment_intent_id t' = get_field (obj_id payment_intent)
         \<and> pt_status t' = (if event_type = ''payment_intent.canceled'' then Some ''canceled''
                            else get_field (obj_status payment_intent))"
proof -
  from assms obtain t t3 where
    g: "orm_get (\<lambda>r. pt_stripe_payment_intent_id r = get_field (obj_id payment_intent))
          (transactions d) = Inr t"
    and sv: "PaymentTransaction_save now d t3 = Inr d'"
    and t3: "pt_id t3 = pt_id t" "pt_stripe_payment_intent_id t3 = pt_stripe_payment_intent_id t"
      "pt_status t3 = (if event_type = ''payment_intent.canceled'' then Some ''canceled''
                       else get_field (obj_status payment_intent))"
    and r: "old_status = pt_status t" "tid = pt_id t3"
    by (auto simp: handle_payment_intent_webhook_def Let_def
        split: sum.splits if_splits option.splits py_error.splits)
  from orm_get_mem [OF g] have tm: "t \<in> set (transactions d)"
    "pt_stripe_payment_intent_id t = get_field (obj_id payment_intent)" by simp_all
  from PaymentTransaction_save_row [OF sv tm(1)] t3 obtain t' where
    "t' \<in> set (transactions d')" "pt_id t' = pt_id t3" "pt_status t' = pt_status t3"
    "pt_stripe_payment_intent_id t' = pt_stripe_payment_intent_id t3" by auto
  with tm t3 r show ?thesis by (intro bexI [of _ t] bexI [of _ t']) simp_all
qed

lemma orm_get_DoesNotExist: "orm_get P rows = Inl DoesNotExist \<Longrightarrow> filter P rows = []"
  by (auto simp: orm_get_def split: list.splits)

lemma PaymentRefund_save_other:
  "PaymentRefund_save now d self = Inr d' \<Longrightarrow> webhooks d' = webhooks d"
  by (auto simp: PaymentRefund_save_def Let_def split: sum.splits if_splits)

lemma PaymentRefund_create_other:
  "PaymentRefund_create d rid parent amount currency reason status metadata = Inr (d', r) \<Longrightarrow>
   webhooks d' = webhooks d"
  by (auto simp: PaymentRefund_create_def Let_def split: sum.splits if_splits)

lemma refund_update_status_webhooks:
  "refund_update_status now d event_type refund payment_refund created = (d', x) \<Longrightarrow>
   webhooks d' = webhooks d"
  by (auto simp: refund_update_status_def Let_def dest: PaymentRefund_save_other
      split: sum.splits)

lemma handle_payment_intent_webhook_webhooks:
  "handle_payment_intent_webhook now d event_type event_object = (d', x) \<Longrightarrow>
   webhooks d' = webhooks d"
  by (auto simp: handle_payment_intent_webhook_def Let_def dest: PaymentTransaction_save_other
      split: sum.splits option.splits py_error.splits if_splits)

lemma handle_charge_webhook_webhooks:
  "handle_charge_webhook now d event_type event_object = (d', x) \<Longrightarrow> webhooks d' = webhooks d"
  by (auto simp: handle_charge_webhook_def Let_def dest: PaymentTransaction_save_other
      split: sum.splits option.splits py_error.splits if_splits)

lemma handle_refund_webhook_webhooks:
  "handle_refund_webhook now d event_type event_object = (d', x) \<Longrightarrow> webhooks d' = webhooks d"
  by (auto simp: handle_refund_webhook_def Let_def
      dest: refund_update_status_webhooks
      split: sum.splits option.splits py_error.splits if_splits)
    (metis PaymentRefund_create_other refund_update_status_webhooks)+

lemma handle_terminal_webhook_webhooks:
  "handle_terminal_webhook d event_type event_object = (d', x) \<Longrightarrow> webhooks d' = webhooks d"
  by (auto simp: handle_terminal_webhook_def split: option.splits)

lemma handle_webhook_event_type_webhooks:
  "handle_webhook_event_type now d ev = (d', x) \<Longrightarrow> webhooks d' = webhooks d"
  by (auto simp: handle_webhook_event_type_def
      dest: handle_payment_intent_webhook_webhooks handle_charge_webhook_webhooks
        handle_refund_webhook_webhooks handle_terminal_webhook_webhooks
      split: sum.splits option.splits field.splits if_splits)

subsection \<open>Receipts\<close>

lemma save_found_receipt:
  assumes d: "distinct (map wh_id ws)" and f: "filter P ws = [w]"
    and w': "wh_id w' = wh_id w" "P w'"
  shows "filter P (map (\<lambda>x. if wh_id x = wh_id w then w' else x) ws) = [w']"
proof -
  let ?f = "\<lambda>x. if wh_id x = wh_id w then w' else x"
  have wm: "w \<in> set ws" "P w"
  proof -
    have "w \<in> set (filter P ws)" by (simp add: f)
    then show "w \<in> set ws" "P w" by simp_all
  qed
  have inj: "inj_on wh_id (set ws)" using d by (simp add: distinct_map)
  have "filter (P \<circ> ?f) ws = filter P ws"
  proof (rule filter_cong [OF refl])
    fix x assume x: "x \<in> set ws"
    show "(P \<circ> ?f) x = P x"
    proof (cases "wh_id x = wh_id w")
      case True
      then have "x = w" using inj x wm(1) by (auto dest: inj_onD)
      then show ?thesis using w'(2) wm(2) by simp
    next
      case False then show ?thesis by simp
    qed
  qed
  then show ?thesis by (simp add: filter_map f)
qed

lemma save_created_receipt:
  assumes "list_all (\<lambda>w. wh_id w < n) ws" "wh_id w0 = n"
  shows "map (\<lambda>x. if wh_id x = n then w' else x) (ws @ [w0]) = ws @ [w']"
proof -
  have "map (\<lambda>x. if wh_id x = n then w' else x) ws = ws"
    using assms(1) by (induction ws) auto
  then show ?thesis using assms(2) by simp
qed

lemma orm_get_single: "filter P rows = [r] \<Longrightarrow> orm_get P rows = Inr r"
  by (simp add: orm_get_def)

lemma already_processed:
  assumes "filter (\<lambda>w. wh_stripe_event_id w = get_field (ev_id ev)) (webhooks d) = [w]"
    "wh_processed w"
  shows "process_webhook_event now d ev = (d, R_already_processed (get_field (ev_id ev)))"
  using assms by (simp add: process_webhook_event_def get_or_create_def orm_get_single Let_def)

text \<open>
  Claim C3, as the code has it. Once a delivery of an event has been handled without an
  error result, exactly one receipt is stored for the event ID and it is marked processed;
  every later delivery of the same event, at any time, leaves the whole database as it is
  and returns \<open>{'status': 'already_processed', 'event_id': ...}\<close>. The outcome of the
  first processing is not what a replay returns.
\<close>

theorem webhook_replay_short_circuit:
  assumes ok: "webhooks_ok d"
    and p: "process_webhook_event now d ev = (d1, r1)"
    and r1: "result_status r1 \<noteq> ''error''"
  shows "length (receipts d1 (get_field (ev_id ev))) = 1
         \<and> process_webhook_event now' d1 ev = (d1, R_already_processed (get_field (ev_id ev)))"
proof -
  let ?eid = "get_field (ev_id ev)"
  let ?P = "\<lambda>w. wh_stripe_event_id w = ?eid"
  have "\<exists>w. filter ?P (webhooks d1) = [w] \<and> wh_processed w"
  proof (cases "orm_get ?P (webhooks d)")
    case (Inr w)
    then have f: "filter ?P (webhooks d) = [w]" by (rule orm_get_Inr)
    show ?thesis
    proof (cases "wh_processed w")
      case True
      then have "d1 = d" using p Inr
        by (simp add: process_webhook_event_def get_or_create_def Let_def)
      then show ?thesis using f True by blast
    next
      case False
      obtain d2 x where h: "handle_webhook_event_type now d ev = (d2, x)" by (cases "handle_webhook_event_type now d ev")
      from p r1 Inr False h obtain result where x: "x = Inr result" 
        and d1: "d1 = PaymentWebhook_save d2
                  \<lparr>row = w\<lparr>wh_processed := True, wh_processed_at := Some now\<rparr>,
                   processing_result = Some result\<rparr>"
        by (cases x) (auto simp: process_webhook_event_def get_or_create_def Let_def)
      have w2: "webhooks d2 = webhooks d" using h by (rule handle_webhook_event_type_webhooks)
      have "filter ?P (webhooks d1) = [w\<lparr>wh_processed := True, wh_processed_at := Some now\<rparr>]"
      proof -
        have "?P w"
        proof -
          have "w \<in> set (filter ?P (webhooks d))" by (simp add: f)
          then show ?thesis by simp
        qed
        then show ?thesis
          using ok save_found_receipt [of "webhooks d" ?P w
              "w\<lparr>wh_processed := True, wh_processed_at := Some now\<rparr>"] f
          by (simp add: d1 PaymentWebhook_save_def w2 webhooks_ok_def cong: if_cong)
      qed
      then show ?thesis by simp
    qed
  next
    case (Inl e)
    show ?thesis
    proof (cases "e = DoesNotExist \<and> ?eid \<noteq> None \<and> get_field (ev_type ev) \<noteq> None")
      case False
      then have "r1 = R_error (if e = DoesNotExist then IntegrityError else e) ?eid"
        using p Inl
        by (cases e) (auto simp: process_webhook_event_def get_or_create_def Let_def)
      then show ?thesis using r1 by simp
    next
      case True
      define w0 where "w0 = \<lparr>wh_id = next_id d, wh_stripe_event_id = ?eid,
                     wh_event_type = get_field (ev_type ev), wh_processed = False,
                     wh_processing_error = None, wh_event_data = ev, wh_processed_at = None\<rparr>"
      define d0 where "d0 = d\<lparr>webhooks := webhooks d @ [w0], next_id := Suc (next_id d)\<rparr>"
      have g: "get_or_create d ?eid (get_field (ev_type ev)) ev
                 = Inr (d0, \<lparr>row = w0, processing_result = None\<rparr>, True)"
        using Inl True by (simp add: get_or_create_def w0_def d0_def Let_def)
      have f0: "filter ?P (webhooks d) = []" using Inl True by (simp add: orm_get_DoesNotExist)
      obtain d2 x where h: "handle_webhook_event_type now d0 ev = (d2, x)"
        by (cases "handle_webhook_event_type now d0 ev")
      from p r1 g h obtain result where x: "x = Inr result"
        and d1: "d1 = PaymentWebhook_save d2
                  \<lparr>row = w0\<lparr>wh_processed := True, wh_processed_at := Some now\<rparr>,
                   processing_result = Some result\<rparr>"
        by (cases x) (auto simp: process_webhook_event_def Let_def)
      have w2: "webhooks d2 = webhooks d @ [w0]"
        using handle_webhook_event_type_webhooks [OF h] by (simp add: d0_def)
      have "webhooks d1 = webhooks d @ [w0\<lparr>wh_processed := True, wh_processed_at := Some now\<rparr>]"
        using ok save_created_receipt [of "next_id d" "webhooks d" w0]
        by (simp add: d1 PaymentWebhook_save_def w2 webhooks_ok_def w0_def cong: if_cong)
      then have "filter ?P (webhooks d1) = [w0\<lparr>wh_processed := True, wh_processed_at := Some now\<rparr>]"
        using f0 by (simp add: w0_def)
      then show ?thesis by simp
    qed
  qed
  then obtain w where w: "filter ?P (webhooks d1) = [w]" "wh_processed w" by blast
  then show ?thesis using already_processed [OF w] by (simp add: receipts_def)
qed

subsection \<open>Evaluation on the example ledger\<close>

lemmas ledger_eval =
  process_webhook_event_def get_or_create_def orm_get_def handle_webhook_event_type_def
  handle_payment_intent_webhook_def handle_charge_webhook_def handle_refund_webhook_def
  handle_terminal_webhook_def refund_update_status_def PaymentWebhook_save_def
  PaymentTransaction_save_def PaymentRefund_save_def PaymentRefund_create_def
  PaymentTransaction_create_def adapt_decimalfield_value_def startswith_def upper_def
  upper_char_def lower_def lower_char_def empty_object_def Let_def
  cents_to_amount_def divide_by_100_def strip_zeros.simps amount_to_cents_def dec_fix_def
  ndigits.simps prec_def Etop_def Etiny_def Emax_def Emin_def round_half_even_def PaymentRefund_clean_def
  CreatePaymentIntentView_post_def create_payment_intent_def StripeWebhookView_post_def
  verify_webhook_signature_def webhook_secret_def mark_processed_def float_overflows_def
  refund_currency_def existing_refunds_def

lemmas scenario_defs =
  payment_100_def ledger_succeeded_def ledger_pending_def refund_150_object_def ev_refund_150_def
  failed_object_def ev_payment_failed_def ev_failed_null_error_def ev_succeeded_def
  stripe_post_ok_def loads_null_error_def dev_settings_def toy_lib_def

text \<open>
  The short-circuit theorem on a pending payment and its \<open>payment_intent.succeeded\<close>
  event, delivered at times 2000 and 3000.
\<close>

theorem webhook_replay_short_circuit_witness:
  "webhooks_ok ledger_pending
   \<and> result_status (snd (process_webhook_event 2000 ledger_pending ev_succeeded)) \<noteq> ''error''
   \<and> length (receipts (fst (process_webhook_event 2000 ledger_pending ev_succeeded))
               (Some ''evt_s1'')) = 1
   \<and> process_webhook_event 3000 (fst (process_webhook_event 2000 ledger_pending ev_succeeded))
         ev_succeeded
     = (fst (process_webhook_event 2000 ledger_pending ev_succeeded),
        R_already_processed (Some ''evt_s1''))"
  using webhook_replay_short_circuit [of ledger_pending 2000 ev_succeeded
      "fst (process_webhook_event 2000 ledger_pending ev_succeeded)"
      "snd (process_webhook_event 2000 ledger_pending ev_succeeded)" 3000]
  by (simp add: ledger_eval scenario_defs webhooks_ok_def receipts_def)

text \<open>
  Claim C3 fails as stated in its last part: the first delivery returns the
  \<open>processed\<close> result of the handler, the replay returns \<open>already_processed\<close>.
\<close>

theorem replay_outcome_counterexample:
  "snd (process_webhook_event 2000 ledger_pending ev_succeeded)
     = R_processed_intent ''payment_intent.succeeded'' (Some ''pi_1'') (Some ''pending'')
         (Some ''succeeded'') 1
   \<and> snd (process_webhook_event 3000 (fst (process_webhook_event 2000 ledger_pending ev_succeeded))
            ev_succeeded)
     = R_already_processed (Some ''evt_s1'')"
  by (simp add: ledger_eval scenario_defs)

subsection \<open>Status transitions\<close>

text \<open>
  Claim C2, as the code has it. When the \<open>payment_intent.*\<close> handler finds the
  transaction of the event's payment-intent ID and reports it processed, the stored
  status is the status of the event object, or \<open>canceled\<close> for
  \<open>payment_intent.canceled\<close>, whatever the status was before: the old status is only
  copied into the result.
\<close>

theorem payment_intent_event_overwrites_status:
  assumes "snd (handle_payment_intent_webhook now d event_type (Some payment_intent))
             = Inr (R_processed_intent et pid old_status new_status tid)"
  shows "\<exists>t \<in> set (transactions d).
         \<exists>t' \<in> set (transactions (fst (handle_payment_intent_webhook now d event_type
                                          (Some payment_intent)))).
           pt_id t = tid \<and> pt_id t' = tid \<and> pt_status t = old_status
         \<and> pt_stripe_payment_intent_id t = get_field (obj_id payment_intent)
         \<and> pt_stripe_payment_intent_id t' = get_field (obj_id payment_intent)
         \<and> pt_status t' = (if event_type = ''payment_intent.canceled'' then Some ''canceled''
                            else get_field (obj_status payment_intent))"
  using assms payment_intent_webhook_status [of now d event_type payment_intent
      "fst (handle_payment_intent_webhook now d event_type (Some payment_intent))"
      et pid old_status new_status tid]
  by (simp add: prod_eq_iff)

theorem payment_intent_event_overwrites_status_witness:
  "snd (handle_payment_intent_webhook 2000 ledger_succeeded ''payment_intent.payment_failed''
          (Some failed_object))
     = Inr (R_processed_intent ''payment_intent.payment_failed'' (Some ''pi_1'')
              (Some ''succeeded'') (Some ''requires_payment_method'') 1)
   \<and> map pt_status (transactions ledger_succeeded) = [Some ''succeeded'']
   \<and> map pt_status
        (transactions (fst (handle_payment_intent_webhook 2000 ledger_succeeded
                              ''payment_intent.payment_failed'' (Some failed_object))))
     = [Some ''requires_payment_method'']"
  using payment_intent_event_overwrites_status [of 2000 ledger_succeeded
      "''payment_intent.payment_failed''" failed_object "''payment_intent.payment_failed''"
      "Some ''pi_1''" "Some ''succeeded''" "Some ''requires_payment_method''" 1]
  by (simp add: ledger_eval scenario_defs)

text \<open>
  Claim C2 fails as stated: a payment that has succeeded receives a
  \<open>payment_intent.payment_failed\<close> event for the same ID, and its status becomes
  \<open>requires_payment_method\<close>.
\<close>

theorem first_terminal_wins_counterexample:
  "map pt_status (transactions ledger_succeeded) = [Some ''succeeded'']
   \<and> result_status (snd (process_webhook_event 2000 ledger_succeeded ev_payment_failed))
     = ''processed''
   \<and> map pt_status (transactions (fst (process_webhook_event 2000 ledger_succeeded
                                          ev_payment_failed)))
     = [Some ''requires_payment_method'']"
  by (simp add: ledger_eval scenario_defs)

lemma create_view_status:
  assumes "snd (CreatePaymentIntentView_post stripe_post d amount currency) = 200"
  shows "\<exists>intent t. create_payment_intent stripe_post amount currency = Inr intent
           \<and> transactions (fst (CreatePaymentIntentView_post stripe_post d amount currency))
               = transactions d @ [t]
           \<and> pt_status t = Some (in_status intent)"
  using assms
  by (auto simp: CreatePaymentIntentView_post_def PaymentTransaction_create_def Let_def
      split: sum.splits py_error.splits if_splits)

lemma map_stripe_status_range:
  "map_stripe_status s \<in> set PAYMENT_STATUS_CHOICES
     \<longleftrightarrow> s \<in> fst ` set status_map \<or> s \<in> set PAYMENT_STATUS_CHOICES"
  by (auto simp: map_stripe_status_def status_map_def PAYMENT_STATUS_CHOICES_def)

text \<open>
  Claim C8, as the code has it. The writers store the processor's status string as they
  receive it: \<open>CreatePaymentIntentView\<close> creates the row with the status of the intent
  returned by the create call, and the \<open>payment_intent.*\<close> handler stores the status of
  the event object (\<open>canceled\<close> for \<open>payment_intent.canceled\<close>). Only
  \<open>_map_stripe_status\<close> translates, and its result lies in
  \<open>PAYMENT_STATUS_CHOICES\<close> exactly when its argument is a key of the status map or
  already one of the five values.
\<close>

theorem status_written_as_received:
  "(snd (CreatePaymentIntentView_post stripe_post d amount currency) = 200 \<longrightarrow>
      (\<exists>intent t. create_payment_intent stripe_post amount currency = Inr intent
         \<and> transactions (fst (CreatePaymentIntentView_post stripe_post d amount currency))
             = transactions d @ [t]
         \<and> pt_status t = Some (in_status intent)))
   \<and> (snd (handle_payment_intent_webhook now d event_type (Some payment_intent))
         = Inr (R_processed_intent et pid old_status new_status tid) \<longrightarrow>
       (\<exists>t' \<in> set (transactions (fst (handle_payment_intent_webhook now d event_type
                                         (Some payment_intent)))).
          pt_id t' = tid
          \<and> pt_status t' = (if event_type = ''payment_intent.canceled'' then Some ''canceled''
                             else get_field (obj_status payment_intent))))
   \<and> (map_stripe_status s \<in> set PAYMENT_STATUS_CHOICES
        \<longleftrightarrow> s \<in> fst ` set status_map \<or> s \<in> set PAYMENT_STATUS_CHOICES)"
proof (intro conjI impI)
  assume "snd (CreatePaymentIntentView_post stripe_post d amount currency) = 200"
  then show "\<exists>intent t. create_payment_intent stripe_post amount currency = Inr intent
         \<and> transactions (fst (CreatePaymentIntentView_post stripe_post d amount currency))
             = transactions d @ [t]
         \<and> pt_status t = Some (in_status intent)"
    by (rule create_view_status)
next
  let ?h = "handle_payment_intent_webhook now d event_type (Some payment_intent)"
  assume "snd ?h = Inr (R_processed_intent et pid old_status new_status tid)"
  then have "?h = (fst ?h, Inr (R_processed_intent et pid old_status new_status tid))"
    by (simp add: prod_eq_iff)
  from payment_intent_webhook_status [OF this]
  show "\<exists>t' \<in> set (transactions (fst ?h)). pt_id t' = tid
          \<and> pt_status t' = (if event_type = ''payment_intent.canceled'' then Some ''canceled''
                             else get_field (obj_status payment_intent))"
    by blast
next
  show "map_stripe_status s \<in> set PAYMENT_STATUS_CHOICES
        \<longleftrightarrow> s \<in> fst ` set status_map \<or> s \<in> set PAYMENT_STATUS_CHOICES"
    by (rule map_stripe_status_range)
qed

theorem status_written_as_received_witness:
  "snd (CreatePaymentIntentView_post stripe_post_ok ledger_succeeded (Finite 1599 (- 2)) ''usd'') = 200
   \<and> map pt_status (transactions (fst (CreatePaymentIntentView_post stripe_post_ok ledger_succeeded
                                          (Finite 1599 (- 2)) ''usd'')))
     = [Some ''succeeded'', Some ''requires_payment_method'']
   \<and> snd (handle_payment_intent_webhook 2000 ledger_succeeded ''payment_intent.payment_failed''
            (Some failed_object))
     = Inr (R_processed_intent ''payment_intent.payment_failed'' (Some ''pi_1'')
              (Some ''succeeded'') (Some ''requires_payment_method'') 1)
   \<and> map_stripe_status ''requires_payment_method'' = ''pending''
   \<and> map_stripe_status ''requires_payment_method'' \<in> set PAYMENT_STATUS_CHOICES"
  using status_written_as_received [of stripe_post_ok ledger_succeeded "Finite 1599 (- 2)" "''usd''"
      2000 "''payment_intent.payment_failed''" failed_object "''payment_intent.payment_failed''"
      "Some ''pi_1''" "Some ''succeeded''" "Some ''requires_payment_method''" 1
      "''requires_payment_method''"]
  by (simp add: ledger_eval scenario_defs map_stripe_status_def status_map_def
      PAYMENT_STATUS_CHOICES_def)

text \<open>
  Claim C8 fails as stated: after a successful create call the new row holds
  \<open>requires_payment_method\<close>, which is none of the five values.
\<close>

theorem created_status_counterexample:
  "snd (CreatePaymentIntentView_post stripe_post_ok ledger_succeeded (Finite 1599 (- 2)) ''usd'') = 200
   \<and> map pt_status (transactions (fst (CreatePaymentIntentView_post stripe_post_ok ledger_succeeded
                                          (Finite 1599 (- 2)) ''usd'')))
     = [Some ''succeeded'', Some ''requires_payment_method'']
   \<and> ''requires_payment_method'' \<notin> set PAYMENT_STATUS_CHOICES"
  by (simp add: ledger_eval scenario_defs PAYMENT_STATUS_CHOICES_def)

subsection \<open>Refund sum\<close>



















subsection \<open>Handler errors\<close>

text \<open>
  Claim C9 at a failing input. A \<open>payment_failed\<close> event with
  \<open>last_payment_error: null\<close> makes the handler raise \<open>AttributeError\<close>. The
  dispatcher catches it and returns the error result, the receipt stays unprocessed, a
  redelivery runs the handler again, and the view answers 500; but the receipt's
  \<open>processing_error\<close> is still empty, because the error was assigned to
  \<open>processing_result\<close>, which is not a column.
\<close>

theorem handler_error_not_recorded:
  "snd (process_webhook_event 2000 ledger_succeeded ev_failed_null_error)
     = R_error AttributeError (Some ''evt_f2'')
   \<and> map wh_processed (webhooks (fst (process_webhook_event 2000 ledger_succeeded
                                        ev_failed_null_error))) = [False]
   \<and> map wh_processing_error (webhooks (fst (process_webhook_event 2000 ledger_succeeded
                                               ev_failed_null_error))) = [None]
   \<and> snd (process_webhook_event 3000
            (fst (process_webhook_event 2000 ledger_succeeded ev_failed_null_error))
            ev_failed_null_error)
     = R_error AttributeError (Some ''evt_f2'')
   \<and> snd (StripeWebhookView_post toy_lib loads_null_error dev_settings 2000 ledger_succeeded
            ''{}'' ''t=1'') = 500"
  by (simp add: ledger_eval scenario_defs)

text \<open>The same request, read off the theorem: answered 500, error column empty.\<close>

theorem handler_error_not_recorded_witness:
  "snd (StripeWebhookView_post toy_lib loads_null_error dev_settings 2000 ledger_succeeded
          ''{}'' ''t=1'') = 500
   \<and> map wh_processing_error (webhooks (fst (process_webhook_event 2000 ledger_succeeded
                                               ev_failed_null_error))) = [None]"
  using handler_error_not_recorded by blast

end
